theory Spec2Isabelle
  imports Main "HOL-Library.Word" "HOL-Library.Multiset" "HOL-Library.Sublist"
begin

section \<open>Go values used by the use cases\<close>

subsection \<open>time.Location\<close>

text \<open>
  A Go \<^verbatim>\<open>*time.Location\<close> is a table of zones: \<open>firstOffset\<close> is the offset, in seconds
  east of UTC, of the zone in force before the first transition, and \<open>tx\<close> lists the
  transitions in ascending order, each with the Unix second at which it happens and the
  offset in force from then on. Transitions that a Location derives from its rule string
  are taken as written out in the table.
\<close>

record Location =
  firstOffset :: int
  tx :: "(int \<times> int) list"

text \<open>\<^verbatim>\<open>time.FixedZone(name, offset)\<close> and \<^verbatim>\<open>time.UTC\<close>.\<close>

definition FixedZone :: "int \<Rightarrow> Location" where
  "FixedZone offset = \<lparr>firstOffset = offset, tx = []\<rparr>"


text \<open>
  \<^verbatim>\<open>l.lookup(sec)\<close>: the offset in force at the Unix second \<open>sec\<close>, with the bounds
  \<^verbatim>\<open>start\<close> and \<^verbatim>\<open>end\<close> of the interval in which it is in force (\<open>None\<close> where Go has
  its sentinels for no bound). Go finds the transition by binary search; the table is
  scanned from its beginning here.
\<close>

fun lookupFrom ::
  "int \<Rightarrow> int option \<Rightarrow> (int \<times> int) list \<Rightarrow> int \<Rightarrow> int \<times> int option \<times> int option" where
  "lookupFrom offset start [] sec = (offset, start, None)"
| "lookupFrom offset start ((at, after) # rest) sec =
     (if sec < at then (offset, start, Some at) else lookupFrom after (Some at) rest sec)"

definition lookup :: "Location \<Rightarrow> int \<Rightarrow> int \<times> int option \<times> int option" where
  "lookup l sec = lookupFrom (firstOffset l) None (tx l) sec"

subsection \<open>time.Time\<close>

text \<open>
  A Go \<^verbatim>\<open>time.Time\<close> is an instant, kept as nanoseconds since the Unix epoch, together
  with a Location.

  \<^verbatim>\<open>t.Year(), t.Month(), t.Day()\<close> read the civil date of \<open>t\<close> in its Location, at the
  offset in force at \<open>t\<close>; that date is identified by \<open>localDay t\<close>, the number of days
  between 1970-01-01 and it. \<^verbatim>\<open>t.Clock()\<close> is identified by \<open>secOfDay t\<close>, the seconds
  since midnight on that date.
\<close>

record Time =
  unixNano :: int
  loc :: Location

definition unixSec :: "Time \<Rightarrow> int" where
  "unixSec t = unixNano t div 1000000000"

definition Nanosecond :: "Time \<Rightarrow> int" where
  "Nanosecond t = unixNano t mod 1000000000"

definition absSec :: "Time \<Rightarrow> int" where
  "absSec t = unixSec t + fst (lookup (loc t) (unixSec t))"

definition localDay :: "Time \<Rightarrow> int" where
  "localDay t = absSec t div 86400"

definition secOfDay :: "Time \<Rightarrow> int" where
  "secOfDay t = absSec t mod 86400"

text \<open>
  \<^verbatim>\<open>time.Date(year, month, day, hour, min, sec, nsec, l)\<close>, with the date given as its day
  number and the clock as seconds since midnight. The wall clock reading is first taken as
  if it were UTC; the offset found there is used if the resulting instant lies in that
  offset's interval, and otherwise the offset found at the resulting instant is used. A wall
  clock reading that a transition skips yields a time that reads differently.
\<close>

definition Date :: "int \<Rightarrow> int \<Rightarrow> int \<Rightarrow> Location \<Rightarrow> Time" where
  "Date day sod nsec l =
     (let unix = day * 86400 + sod;
          (offset, start, stop) = lookup l unix;
          offset' =
            (if offset \<noteq> 0
             then (let utc = unix - offset
                   in if (case start of Some s \<Rightarrow> utc < s | None \<Rightarrow> False)
                         \<or> (case stop of Some e \<Rightarrow> e \<le> utc | None \<Rightarrow> False)
                      then fst (lookup l utc)
                      else offset)
             else offset)
      in \<lparr>unixNano = (unix - offset') * 1000000000 + nsec, loc = l\<rparr>)"

text \<open>
  \<^verbatim>\<open>time.Date(t.Year(), t.Month(), t.Day(), 0, 0, 0, 0, t.Location())\<close>: midnight of the
  civil date of \<open>t\<close>, in the Location of \<open>t\<close>.
\<close>

definition startOfDay :: "Time \<Rightarrow> Time" where
  "startOfDay t = Date (localDay t) 0 0 (loc t)"

text \<open>\<^verbatim>\<open>t.Equal(u)\<close> compares instants and ignores the Location.\<close>

definition Equal :: "Time \<Rightarrow> Time \<Rightarrow> bool" where
  "Equal t u = (unixNano t = unixNano u)"

text \<open>
  \<^verbatim>\<open>t.AddDate(0, 0, days)\<close>: \<^verbatim>\<open>Date\<close> of the civil date of \<open>t\<close> moved by \<open>days\<close>, with
  the clock and the nanoseconds of \<open>t\<close>, in the Location of \<open>t\<close>.
\<close>

definition AddDate :: "Time \<Rightarrow> int \<Rightarrow> Time" where
  "AddDate t days = Date (localDay t + days) (secOfDay t) (Nanosecond t) (loc t)"

text \<open>
  Local midnight exists on a day in a Location: the time that \<^verbatim>\<open>time.Date\<close> gives for
  00:00:00 on that day reads as that day at 00:00:00. It fails where a transition moves the
  clocks forward over midnight.
\<close>

definition midnightExists :: "Location \<Rightarrow> int \<Rightarrow> bool" where
  "midnightExists l day =
     (localDay (Date day 0 0 l) = day \<and> secOfDay (Date day 0 0 l) = 0)"

text \<open>The civil date (year, month, day) of a day number, proleptic Gregorian calendar.\<close>

definition civilFromDays :: "int \<Rightarrow> int \<times> int \<times> int" where
  "civilFromDays z0 =
     (let z = z0 + 719468;
          era = z div 146097;
          doe = z mod 146097;
          yoe = (doe - doe div 1460 + doe div 36524 - doe div 146096) div 365;
          doy = doe - (365 * yoe + yoe div 4 - yoe div 100);
          mp = (5 * doy + 2) div 153;
          d = doy - (153 * mp + 2) div 5 + 1;
          m = (if mp < 10 then mp + 3 else mp - 9);
          y = yoe + era * 400
      in (if m \<le> 2 then y + 1 else y, m, d))"

subsection \<open>Decimal output\<close>

fun digits :: "nat \<Rightarrow> string" where
  "digits n =
     (if n < 10 then [''0123456789'' ! n]
      else digits (n div 10) @ [''0123456789'' ! (n mod 10)])"

declare digits.simps [simp del]

text \<open>The verb \<^verbatim>\<open>%d\<close> of \<^verbatim>\<open>fmt.Sprintf\<close>.\<close>

definition itoa :: "int \<Rightarrow> string" where
  "itoa i = (if i < 0 then CHR ''-'' # digits (nat (- i)) else digits (nat i))"

text \<open>\<^verbatim>\<open>appendInt\<close> of package time: a sign, then the digits padded with zeros to a width.\<close>

definition appendInt :: "int \<Rightarrow> nat \<Rightarrow> string" where
  "appendInt x width =
     (let ds = digits (nat \<bar>x\<bar>)
      in (if x < 0 then ''-'' else '''') @ replicate (width - length ds) CHR ''0'' @ ds)"

text \<open>\<^verbatim>\<open>t.Format("02-01-2006")\<close>: day, month, year of \<open>t\<close> in its Location.\<close>

definition Format :: "Time \<Rightarrow> string" where
  "Format t =
     (case civilFromDays (localDay t) of
        (y, m, d) \<Rightarrow> appendInt d 2 @ ''-'' @ appendInt m 2 @ ''-'' @ appendInt y 4)"

subsection \<open>Text outside ASCII, as the UTF-8 bytes of the Go string literals\<close>

definition fire :: string where
  "fire = [CHR 0xF0, CHR 0x9F, CHR 0x94, CHR 0xA5]"

definition wink :: string where
  "wink = [CHR 0xF0, CHR 0x9F, CHR 0x98, CHR 0x89]"

definition brokenHeart :: string where
  "brokenHeart = [CHR 0xF0, CHR 0x9F, CHR 0x92, CHR 0x94]"

definition flexedBiceps :: string where
  "flexedBiceps = [CHR 0xF0, CHR 0x9F, CHR 0x92, CHR 0xAA]"

definition enDash :: string where
  "enDash = [CHR 0xE2, CHR 0x80, CHR 0x93]"

definition newline :: string where
  "newline = [CHR 0x0A]"

section \<open>domain.Report and the ReportRepository\<close>

text \<open>
  \<^verbatim>\<open>Streak\<close> and \<^verbatim>\<open>ActivityCount\<close> are Go \<^verbatim>\<open>int\<close>: 64-bit two's complement, read
  through \<open>sint\<close>; \<^verbatim>\<open>++\<close> wraps.
\<close>

record Report =
  UserID :: string
  Name :: string
  Streak :: "64 word"
  ActivityCount :: "64 word"
  LastReportDate :: Time

datatype error = Err string

text \<open>
  The repository behind the interface \<^verbatim>\<open>domain.ReportRepository\<close>: one row per
  \<^verbatim>\<open>UserID\<close> (the primary key of \<^verbatim>\<open>user_reports\<close>, the key of the map of the test
  double). \<^verbatim>\<open>GetReport\<close> hands out a copy of the row, as the SQLite repository does
  when it scans a row into a fresh struct. Each method fails with the error configured for
  it, if any, and leaves the rows alone when it fails. \<open>calls\<close> records every method call
  in order.
\<close>

datatype call = GetReportCall string | UpsertReportCall Report | GetAllReportsCall

record Repo =
  rows :: "Report list"
  getReportErr :: "error option"
  upsertReportErr :: "error option"
  getAllReportsErr :: "error option"
  calls :: "call list"

definition GetReport :: "Repo \<Rightarrow> string \<Rightarrow> (Report option \<times> error option) \<times> Repo" where
  "GetReport repo userID =
     (let repo' = repo\<lparr>calls := calls repo @ [GetReportCall userID]\<rparr>
      in case getReportErr repo of
           Some e \<Rightarrow> ((None, Some e), repo')
         | None \<Rightarrow> ((find (\<lambda>r. UserID r = userID) (rows repo), None), repo'))"

fun upsertRow :: "Report \<Rightarrow> Report list \<Rightarrow> Report list" where
  "upsertRow report [] = [report]"
| "upsertRow report (r # rs) =
     (if UserID r = UserID report then report # rs else r # upsertRow report rs)"

definition UpsertReport :: "Repo \<Rightarrow> Report \<Rightarrow> error option \<times> Repo" where
  "UpsertReport repo report =
     (let repo' = repo\<lparr>calls := calls repo @ [UpsertReportCall report]\<rparr>
      in case upsertReportErr repo of
           Some e \<Rightarrow> (Some e, repo')
         | None \<Rightarrow> (None, repo'\<lparr>rows := upsertRow report (rows repo)\<rparr>))"

definition GetAllReports :: "Repo \<Rightarrow> (Report list \<times> error option) \<times> Repo" where
  "GetAllReports repo =
     (let repo' = repo\<lparr>calls := calls repo @ [GetAllReportsCall]\<rparr>
      in case getAllReportsErr repo of
           Some e \<Rightarrow> (([], Some e), repo')
         | None \<Rightarrow> ((rows repo, None), repo'))"

section \<open>ReportActivityUsecase.Execute\<close>

definition rejectedMsg :: "string \<Rightarrow> string" where
  "rejectedMsg name = name @ '' sudah laporan hari ini, ayo jangan curang! '' @ wink"

definition acceptedMsg :: "string \<Rightarrow> 64 word \<Rightarrow> string" where
  "acceptedMsg name n =
     ''Laporan diterima, '' @ name @ '' sudah berkeringat '' @ itoa (sint n)
       @ '' hari. Lanjutkan '' @ fire"

text \<open>The tail of Execute: the upsert and the reply.\<close>

definition upsertAndReply :: "Repo \<Rightarrow> string \<Rightarrow> Report \<Rightarrow> (string \<times> error option) \<times> Repo" where
  "upsertAndReply repo name report =
     (case UpsertReport repo report of
        (Some err, repo') \<Rightarrow> (('''', Some err), repo')
      | (None, repo') \<Rightarrow> ((acceptedMsg name (ActivityCount report), None), repo'))"

text \<open>
  \<^verbatim>\<open>Execute(ctx, userID, name)\<close> returns Go's pair (string, error); the clock read by
  \<^verbatim>\<open>time.Now()\<close> is the argument \<open>now\<close>, and the repository is passed in and returned.
\<close>

definition ReportActivityUsecase_Execute ::
  "Repo \<Rightarrow> Time \<Rightarrow> string \<Rightarrow> string \<Rightarrow> (string \<times> error option) \<times> Repo" where
  "ReportActivityUsecase_Execute repo now userID name =
     (case GetReport repo userID of
        ((report, Some err), repo1) \<Rightarrow> (('''', Some err), repo1)
      | ((report, None), repo1) \<Rightarrow>
          (let today = startOfDay now
           in case report of
                Some r \<Rightarrow>
                  (let lastReportDate = startOfDay (LastReportDate r)
                   in if Equal lastReportDate today
                      then ((rejectedMsg name, None), repo1)
                      else
                        (let yesterday = AddDate today (- 1);
                             r1 = (if Equal lastReportDate yesterday
                                   then r\<lparr>Streak := Streak r + 1\<rparr>
                                   else r\<lparr>Streak := 1\<rparr>);
                             r2 = r1\<lparr>ActivityCount := ActivityCount r1 + 1\<rparr>;
                             r3 = r2\<lparr>Name := name\<rparr>;
                             r4 = r3\<lparr>LastReportDate := now\<rparr>
                         in upsertAndReply repo1 name r4))
              | None \<Rightarrow>
                  upsertAndReply repo1 name
                    \<lparr>UserID = userID, Name = name, Streak = 1, ActivityCount = 1,
                     LastReportDate = now\<rparr>))"

text \<open>The report stored for a member.\<close>

definition stored :: "Repo \<Rightarrow> string \<Rightarrow> Report option" where
  "stored repo userID = find (\<lambda>r. UserID r = userID) (rows repo)"

text \<open>
  The invariants of a Report in the words of the data model: streak at least 1,
  activityCount at least 1, activityCount at least streak.
\<close>

definition ledgerInvariant :: "Report \<Rightarrow> bool" where
  "ledgerInvariant r =
     (1 \<le> sint (Streak r) \<and> 1 \<le> sint (ActivityCount r)
        \<and> sint (Streak r) \<le> sint (ActivityCount r))"

section \<open>sort.Slice\<close>

text \<open>
  \<^verbatim>\<open>sort.Slice(xs, less)\<close> is library code and not a stable sort: the use case is given
  the sorting function as \<open>srt\<close>, and the properties below hold for every \<open>srt\<close> that
  returns a permutation of its input in which no element is \<open>lt\<close> an element before it.
\<close>

type_synonym 'a sortSlice = "('a \<Rightarrow> 'a \<Rightarrow> bool) \<Rightarrow> 'a list \<Rightarrow> 'a list"

definition sortsSlice :: "'a sortSlice \<Rightarrow> ('a \<Rightarrow> 'a \<Rightarrow> bool) \<Rightarrow> bool" where
  "sortsSlice srt lt =
     (\<forall>xs. mset (srt lt xs) = mset xs \<and> sorted_wrt (\<lambda>a b. \<not> lt b a) (srt lt xs))"

text \<open>
  The insertion sort that package sort runs on slices of at most 12 elements:
  \<^verbatim>\<open>for i := a + 1; i < b; i++ { for j := i; j > a && less(data[j], data[j-1]); j-- { swap } }\<close>.
  The sorted part \<^verbatim>\<open>data[a:i]\<close> is kept reversed, its last element first.
\<close>

fun swapDown :: "('a \<Rightarrow> 'a \<Rightarrow> bool) \<Rightarrow> 'a \<Rightarrow> 'a list \<Rightarrow> 'a list" where
  "swapDown lt x [] = [x]"
| "swapDown lt x (y # ys) = (if lt x y then y # swapDown lt x ys else x # y # ys)"

fun insertionSortLoop :: "('a \<Rightarrow> 'a \<Rightarrow> bool) \<Rightarrow> 'a list \<Rightarrow> 'a list \<Rightarrow> 'a list" where
  "insertionSortLoop lt [] front = rev front"
| "insertionSortLoop lt (x # xs) front = insertionSortLoop lt xs (swapDown lt x front)"

definition insertionSort :: "'a sortSlice" where
  "insertionSort lt xs = insertionSortLoop lt xs []"

section \<open>GetLeaderboardUsecase.Execute\<close>

text \<open>The test of the partition loop on one report.\<close>

definition keepsStreak :: "Time \<Rightarrow> Time \<Rightarrow> Report \<Rightarrow> bool" where
  "keepsStreak today yesterday r =
     (let lastReportDate = startOfDay (LastReportDate r)
      in Equal lastReportDate today \<or> Equal lastReportDate yesterday)"

fun partitionLoop ::
  "Time \<Rightarrow> Time \<Rightarrow> Report list \<Rightarrow> Report list \<times> Report list \<Rightarrow> Report list \<times> Report list" where
  "partitionLoop today yesterday [] (keepStreak, loseStreak) = (keepStreak, loseStreak)"
| "partitionLoop today yesterday (r # rs) (keepStreak, loseStreak) =
     (if keepsStreak today yesterday r
      then partitionLoop today yesterday rs (keepStreak @ [r], loseStreak)
      else partitionLoop today yesterday rs (keepStreak, loseStreak @ [r]))"

definition byStreakDesc :: "Report \<Rightarrow> Report \<Rightarrow> bool" where
  "byStreakDesc a b = (sint (Streak b) < sint (Streak a))"

fun maxDayLoop :: "Report list \<Rightarrow> 64 word \<Rightarrow> 64 word" where
  "maxDayLoop [] maxDay = maxDay"
| "maxDayLoop (r # rs) maxDay =
     maxDayLoop rs (if sint maxDay < sint (ActivityCount r) then ActivityCount r else maxDay)"

definition titleLine :: "64 word \<Rightarrow> string \<Rightarrow> string" where
  "titleLine maxDay dateStr =
     ''30 Days of Sweat Challenge '' @ enDash @ '' Day '' @ itoa (sint maxDay)
       @ '' ('' @ dateStr @ '')'' @ newline @ newline"

definition recapDayLine :: "64 word \<Rightarrow> string" where
  "recapDayLine maxDay = ''Recap day '' @ itoa (sint maxDay) @ '':'' @ newline"

definition keepCountLine :: "int \<Rightarrow> string" where
  "keepCountLine n = itoa n @ '' peoples keep the streak '' @ fire @ newline"

definition loseCountLine :: "int \<Rightarrow> string" where
  "loseCountLine n = itoa n @ '' lose the streak '' @ brokenHeart @ newline"

definition standingsLine :: string where
  "standingsLine = newline @ ''Update klasemen sementara:'' @ newline"

definition activeLine :: "int \<Rightarrow> Report \<Rightarrow> string" where
  "activeLine rank r =
     itoa rank @ ''. '' @ Name r @ '' - '' @ itoa (sint (Streak r)) @ '' days streak ''
       @ fire @ newline"

definition lostLine :: "int \<Rightarrow> Report \<Rightarrow> string" where
  "lostLine rank r =
     itoa rank @ ''. '' @ Name r @ '' - Day '' @ itoa (sint (ActivityCount r)) @ '' ''
       @ brokenHeart @ newline"

definition closingLines :: string where
  "closingLines =
     newline
       @ ''Yang udah keringetan langsung update/posting aja nanti dimasukkin klasemen ''
       @ flexedBiceps @ newline @ newline @ ''Semangat'' @ fire"

text \<open>
  The two rendering loops, on the string builder and the rank counter. The counter never
  exceeds the number of reports plus one, so it is an unbounded integer here.
\<close>

fun writeActive :: "Report list \<Rightarrow> string \<times> int \<Rightarrow> string \<times> int" where
  "writeActive [] (sb, rank) = (sb, rank)"
| "writeActive (r # rs) (sb, rank) = writeActive rs (sb @ activeLine rank r, rank + 1)"

fun writeLost :: "Report list \<Rightarrow> string \<times> int \<Rightarrow> string \<times> int" where
  "writeLost [] (sb, rank) = (sb, rank)"
| "writeLost (r # rs) (sb, rank) = writeLost rs (sb @ lostLine rank r, rank + 1)"

text \<open>The second half of Execute: the text written to the \<^verbatim>\<open>strings.Builder\<close>.\<close>

definition renderLeaderboard :: "Time \<Rightarrow> 64 word \<Rightarrow> Report list \<Rightarrow> Report list \<Rightarrow> string" where
  "renderLeaderboard now maxDay keepStreak loseStreak =
     (let dateStr = Format now;
          sb1 = titleLine maxDay dateStr;
          sb2 = sb1 @ recapDayLine maxDay;
          sb3 = sb2 @ keepCountLine (int (length keepStreak));
          sb4 = sb3 @ loseCountLine (int (length loseStreak));
          sb5 = sb4 @ standingsLine;
          (sb6, rank1) = writeActive keepStreak (sb5, 1);
          (sb7, rank2) = writeLost loseStreak (sb6, rank1)
      in sb7 @ closingLines)"

text \<open>
  \<^verbatim>\<open>Execute(ctx)\<close>, with the clock and the repository as arguments and \<open>srt\<close> for
  \<^verbatim>\<open>sort.Slice\<close>.
\<close>

definition GetLeaderboardUsecase_Execute ::
  "Report sortSlice \<Rightarrow> Repo \<Rightarrow> Time \<Rightarrow> (string \<times> error option) \<times> Repo" where
  "GetLeaderboardUsecase_Execute srt repo now =
     (case GetAllReports repo of
        ((reports, Some err), repo1) \<Rightarrow> (('''', Some err), repo1)
      | ((reports, None), repo1) \<Rightarrow>
          (let today = startOfDay now;
               yesterday = AddDate today (- 1);
               (keepStreak0, loseStreak0) = partitionLoop today yesterday reports ([], []);
               keepStreak = srt byStreakDesc keepStreak0;
               loseStreak = srt byStreakDesc loseStreak0;
               maxDay = maxDayLoop reports 0
           in ((renderLeaderboard now maxDay keepStreak loseStreak, None), repo1)))"


section \<open>HandleMessageUsecase.Execute\<close>

text \<open>
  Modelled from the spec: \<^verbatim>\<open>HandleMessageUsecase.Execute\<close>, whose source file is missing
  (only its tests and its caller in \<^verbatim>\<open>cmd/bot/main.go\<close> are there). The text is trimmed
  of surrounding whitespace, folded to lower case and matched by prefix against
  \<^verbatim>\<open>#lapor\<close>, then \<^verbatim>\<open>#leaderboard\<close>; anything else gives the empty result.
\<close>

definition isSpace :: "char \<Rightarrow> bool" where
  "isSpace c = (c \<in> set [CHR '' '', CHR 0x09, CHR 0x0A, CHR 0x0B, CHR 0x0C, CHR 0x0D])"

definition TrimSpace :: "string \<Rightarrow> string" where
  "TrimSpace s = rev (dropWhile isSpace (rev (dropWhile isSpace s)))"

definition toLowerChar :: "char \<Rightarrow> char" where
  "toLowerChar c =
     (case map_of (zip ''ABCDEFGHIJKLMNOPQRSTUVWXYZ'' ''abcdefghijklmnopqrstuvwxyz'') c of
        Some l \<Rightarrow> l
      | None \<Rightarrow> c)"

definition ToLower :: "string \<Rightarrow> string" where
  "ToLower s = map toLowerChar s"

definition HandleMessageUsecase_Execute ::
  "Report sortSlice \<Rightarrow> Repo \<Rightarrow> Time \<Rightarrow> string \<Rightarrow> string \<Rightarrow> string
     \<Rightarrow> (string \<times> error option) \<times> Repo" where
  "HandleMessageUsecase_Execute srt repo now userID name rawText =
     (let text = ToLower (TrimSpace rawText)
      in if prefix ''#lapor'' text then ReportActivityUsecase_Execute repo now userID name
         else if prefix ''#leaderboard'' text then GetLeaderboardUsecase_Execute srt repo now
         else (('''', None), repo))"

section \<open>Fixtures of the tests\<close>

text \<open>
  The repository double of the tests, which never fails; a fixed reading of the clock,
  2026-02-06 22:30:45 at UTC+7; and \<^verbatim>\<open>time.Now().AddDate(0, 0, -n)\<close>.
\<close>

definition mockRepo :: "Report list \<Rightarrow> Repo" where
  "mockRepo rs =
     \<lparr>rows = rs, getReportErr = None, upsertReportErr = None, getAllReportsErr = None,
      calls = []\<rparr>"

definition clock :: Time where
  "clock = \<lparr>unixNano = 1770391845000000000, loc = FixedZone 25200\<rparr>"

definition daysAgo :: "int \<Rightarrow> Time" where
  "daysAgo n = AddDate clock (- n)"


text \<open>
  A Location whose clocks go forward at midnight: UTC+2, UTC+3 from
  2026-03-28 22:00:00 UTC (the clocks go from 00:00 to 01:00 on 2026-03-29), UTC+2 again
  from 2026-10-24 21:00:00 UTC.
\<close>

definition forwardAtMidnight :: Location where
  "forwardAtMidnight = \<lparr>firstOffset = 7200, tx = [(1774735200, 10800), (1792875600, 7200)]\<rparr>"

text \<open>The three members of the leaderboard test, in some order of the repository.\<close>

definition threeMembers :: "Report list" where
  "threeMembers =
     [\<lparr>UserID = ''user1'', Name = ''HighTotal_LostStreak'', Streak = 0, ActivityCount = 30,
       LastReportDate = daysAgo 7\<rparr>,
      \<lparr>UserID = ''user3'', Name = ''LowTotal_ActiveStreak'', Streak = 10, ActivityCount = 10,
       LastReportDate = clock\<rparr>,
      \<lparr>UserID = ''user2'', Name = ''MediumTotal_ActiveStreak'', Streak = 25,
       ActivityCount = 25, LastReportDate = daysAgo 1\<rparr>]"

section \<open>Properties\<close>

subsection \<open>The clock and the repository\<close>

lemma find_upsertRow_same:
  "find (\<lambda>r. UserID r = UserID report) (upsertRow report rs) = Some report"
  by (induction rs) auto

lemma loc_Date: "loc (Date day sod nsec l) = l"
  by (simp add: Date_def Let_def split: prod.splits)

lemma localDay_secOfDay_cong:
  assumes "unixNano a = unixNano b" and "loc a = loc b"
  shows "localDay a = localDay b" and "secOfDay a = secOfDay b"
  using assms by (simp_all add: localDay_def secOfDay_def absSec_def unixSec_def)

lemma Nanosecond_Date_midnight: "Nanosecond (Date day sod 0 l) = 0"
  by (simp add: Date_def Nanosecond_def Let_def split: prod.splits)


lemma Equal_midnights:
  assumes "midnightExists l d" and "midnightExists l e"
  shows "Equal (Date d 0 0 l) (Date e 0 0 l) = (d = e)"
proof
  assume "Equal (Date d 0 0 l) (Date e 0 0 l)"
  then have "unixNano (Date d 0 0 l) = unixNano (Date e 0 0 l)"
    by (simp add: Equal_def)
  then have "localDay (Date d 0 0 l) = localDay (Date e 0 0 l)"
    by (rule localDay_secOfDay_cong) (simp add: loc_Date)
  with assms show "d = e"
    by (simp add: midnightExists_def)
next
  assume "d = e"
  then show "Equal (Date d 0 0 l) (Date e 0 0 l)"
    by (simp add: Equal_def)
qed

lemma AddDate_midnight:
  "midnightExists l d \<Longrightarrow> AddDate (Date d 0 0 l) n = Date (d + n) 0 0 l"
  by (simp add: AddDate_def midnightExists_def loc_Date Nanosecond_Date_midnight)

lemma Equal_startOfDay_today:
  assumes "loc a = loc b"
    and "midnightExists (loc b) (localDay a)" and "midnightExists (loc b) (localDay b)"
  shows "Equal (startOfDay a) (startOfDay b) = (localDay a = localDay b)"
  using assms by (simp add: startOfDay_def Equal_midnights)

lemma Equal_startOfDay_yesterday:
  assumes "loc a = loc b"
    and "midnightExists (loc b) (localDay a)" and "midnightExists (loc b) (localDay b)"
    and "midnightExists (loc b) (localDay b - 1)"
  shows "Equal (startOfDay a) (AddDate (startOfDay b) (- 1)) = (localDay a = localDay b - 1)"
proof -
  have "AddDate (startOfDay b) (- 1) = Date (localDay b - 1) 0 0 (loc b)"
    using AddDate_midnight [OF assms(3), of "- 1"] by (simp add: startOfDay_def)
  with assms(1,2,4) show ?thesis
    by (simp add: startOfDay_def Equal_midnights)
qed

text \<open>In a Location with no transition every wall clock reading exists.\<close>

lemma lookup_fixed: "tx l = [] \<Longrightarrow> lookup l sec = (firstOffset l, None, None)"
  by (simp add: lookup_def)

lemma Date_fixed:
  "tx l = [] \<Longrightarrow>
     Date day sod nsec l =
       \<lparr>unixNano = (day * 86400 + sod - firstOffset l) * 1000000000 + nsec, loc = l\<rparr>"
  by (simp add: Date_def lookup_fixed Let_def)

lemma reading_fixed:
  assumes "tx l = []" and "0 \<le> sod" and "sod < 86400" and "0 \<le> nsec" and "nsec < 1000000000"
  shows "localDay (Date day sod nsec l) = day" and "secOfDay (Date day sod nsec l) = sod"
    and "Nanosecond (Date day sod nsec l) = nsec"
proof -
  have sec: "((day * 86400 + sod - firstOffset l) * 1000000000 + nsec) div 1000000000
      = day * 86400 + sod - firstOffset l"
    using assms(4,5) by simp
  then have "absSec (Date day sod nsec l) = day * 86400 + sod"
    using assms(1) by (simp add: Date_fixed absSec_def unixSec_def lookup_fixed)
  then show "localDay (Date day sod nsec l) = day" and "secOfDay (Date day sod nsec l) = sod"
    using assms(2,3) by (simp_all add: localDay_def secOfDay_def)
  have "nsec mod 1000000000 = nsec"
    using assms(4,5) by simp
  then have "((day * 86400 + sod - firstOffset l) * 1000000000 + nsec) mod 1000000000 = nsec"
    by (simp only: mod_mult_self3)
  then show "Nanosecond (Date day sod nsec l) = nsec"
    unfolding Nanosecond_def Date_fixed [OF assms(1)] by simp
qed

lemma midnightExists_fixed: "tx l = [] \<Longrightarrow> midnightExists l day"
  by (simp add: midnightExists_def reading_fixed)

lemma localDay_AddDate_fixed:
  assumes "tx (loc t) = []"
  shows "localDay (AddDate t n) = localDay t + n"
proof -
  have "0 \<le> secOfDay t" "secOfDay t < 86400" "0 \<le> Nanosecond t" "Nanosecond t < 1000000000"
    by (simp_all add: secOfDay_def Nanosecond_def)
  with assms show ?thesis
    by (simp add: AddDate_def reading_fixed)
qed

text \<open>The fixtures.\<close>

lemma loc_clock: "loc clock = FixedZone 25200" and tx_clock: "tx (loc clock) = []"
  by (simp_all add: clock_def FixedZone_def)

lemma loc_daysAgo: "loc (daysAgo n) = FixedZone 25200" and tx_daysAgo: "tx (loc (daysAgo n)) = []"
  by (simp_all add: daysAgo_def AddDate_def loc_Date loc_clock FixedZone_def)

lemma localDay_clock: "localDay clock = 20490"
  by (simp add: localDay_def absSec_def unixSec_def lookup_fixed tx_clock)
     (simp add: clock_def FixedZone_def)

lemma localDay_daysAgo: "localDay (daysAgo n) = 20490 - n"
  by (simp add: daysAgo_def localDay_AddDate_fixed tx_clock localDay_clock)

lemma Equal_startOfDay_fixtures:
  assumes "loc a = FixedZone 25200" and "loc b = FixedZone 25200"
  shows "Equal (startOfDay a) (startOfDay b) = (localDay a = localDay b)"
    and "Equal (startOfDay a) (AddDate (startOfDay b) (- 1)) = (localDay a = localDay b - 1)"
proof -
  have "midnightExists (loc b) d" for d
    by (rule midnightExists_fixed) (simp add: assms(2) FixedZone_def)
  moreover have "loc a = loc b"
    by (simp add: assms)
  ultimately show "Equal (startOfDay a) (startOfDay b) = (localDay a = localDay b)"
    and "Equal (startOfDay a) (AddDate (startOfDay b) (- 1)) = (localDay a = localDay b - 1)"
    by (simp_all add: Equal_startOfDay_today Equal_startOfDay_yesterday)
qed

lemma Execute_read_failure:
  "getReportErr repo = Some e \<Longrightarrow>
     ReportActivityUsecase_Execute repo now userID name =
       (('''', Some e), repo\<lparr>calls := calls repo @ [GetReportCall userID]\<rparr>)"
  by (simp add: ReportActivityUsecase_Execute_def GetReport_def)

lemma Execute_no_record:
  "getReportErr repo = None \<Longrightarrow> stored repo userID = None \<Longrightarrow>
     ReportActivityUsecase_Execute repo now userID name =
       upsertAndReply (repo\<lparr>calls := calls repo @ [GetReportCall userID]\<rparr>) name
         \<lparr>UserID = userID, Name = name, Streak = 1, ActivityCount = 1, LastReportDate = now\<rparr>"
  by (simp add: ReportActivityUsecase_Execute_def GetReport_def stored_def)

lemma Execute_same_day:
  "getReportErr repo = None \<Longrightarrow> stored repo userID = Some r \<Longrightarrow>
   Equal (startOfDay (LastReportDate r)) (startOfDay now) \<Longrightarrow>
     ReportActivityUsecase_Execute repo now userID name =
       ((rejectedMsg name, None), repo\<lparr>calls := calls repo @ [GetReportCall userID]\<rparr>)"
  by (simp add: ReportActivityUsecase_Execute_def GetReport_def stored_def)

lemma Execute_other_day:
  "getReportErr repo = None \<Longrightarrow> stored repo userID = Some r \<Longrightarrow>
   \<not> Equal (startOfDay (LastReportDate r)) (startOfDay now) \<Longrightarrow>
     ReportActivityUsecase_Execute repo now userID name =
       upsertAndReply (repo\<lparr>calls := calls repo @ [GetReportCall userID]\<rparr>) name
         (r\<lparr>Streak :=
               (if Equal (startOfDay (LastReportDate r)) (AddDate (startOfDay now) (- 1))
                then Streak r + 1 else 1),
            ActivityCount := ActivityCount r + 1, Name := name, LastReportDate := now\<rparr>)"
  by (simp add: ReportActivityUsecase_Execute_def GetReport_def stored_def Let_def)

lemma upsertAndReply_ok:
  "upsertReportErr repo = None \<Longrightarrow>
     upsertAndReply repo name report =
       ((acceptedMsg name (ActivityCount report), None),
        repo\<lparr>calls := calls repo @ [UpsertReportCall report],
             rows := upsertRow report (rows repo)\<rparr>)"
  by (simp add: upsertAndReply_def UpsertReport_def)

lemma upsertAndReply_failure:
  "upsertReportErr repo = Some e \<Longrightarrow>
     upsertAndReply repo name report =
       (('''', Some e), repo\<lparr>calls := calls repo @ [UpsertReportCall report]\<rparr>)"
  by (simp add: upsertAndReply_def UpsertReport_def)

lemma upsertRow_absent:
  "find (\<lambda>r. UserID r = UserID report) rs = None \<Longrightarrow> upsertRow report rs = rs @ [report]"
  by (induction rs) (auto split: if_splits)

lemma stored_UserID: "stored repo userID = Some r \<Longrightarrow> UserID r = userID"
  by (auto simp: stored_def find_Some_iff)


lemma find_append_absent: "find P xs = None \<Longrightarrow> find P (xs @ ys) = find P ys"
  by (induction xs) (auto split: if_splits)








subsection \<open>Reports\<close>

lemma itoa_one: "itoa 1 = ''1''"
  by (simp add: itoa_def digits.simps)

text \<open>
  C3. A member with no stored report: the record \<open>streak = 1, activityCount = 1,
  lastReportDate = now, displayName = name\<close> is created and upserted (appended to the
  rows, after one read and one write), and the reply is exactly
  "Laporan diterima, {name} sudah berkeringat 1 hari. Lanjutkan" followed by the fire sign.
\<close>

theorem first_report_creates_record:
  assumes "getReportErr repo = None" and "upsertReportErr repo = None"
    and "stored repo userID = None"
  shows "ReportActivityUsecase_Execute repo now userID name =
           ((''Laporan diterima, '' @ name @ '' sudah berkeringat 1 hari. Lanjutkan '' @ fire,
             None),
            repo\<lparr>calls := calls repo @
                   [GetReportCall userID,
                    UpsertReportCall
                      \<lparr>UserID = userID, Name = name, Streak = 1, ActivityCount = 1,
                       LastReportDate = now\<rparr>],
                 rows := rows repo @
                   [\<lparr>UserID = userID, Name = name, Streak = 1, ActivityCount = 1,
                     LastReportDate = now\<rparr>]\<rparr>)
         \<and> stored (snd (ReportActivityUsecase_Execute repo now userID name)) userID =
             Some \<lparr>UserID = userID, Name = name, Streak = 1, ActivityCount = 1,
                   LastReportDate = now\<rparr>"
proof -
  let ?new = "\<lparr>UserID = userID, Name = name, Streak = 1, ActivityCount = 1,
                LastReportDate = now\<rparr>"
  let ?repo1 = "repo\<lparr>calls := calls repo @ [GetReportCall userID]\<rparr>"
  have absent: "find (\<lambda>r. UserID r = UserID ?new) (rows repo) = None"
    using assms(3) by (simp add: stored_def)
  have run: "ReportActivityUsecase_Execute repo now userID name = upsertAndReply ?repo1 name ?new"
    using assms(1,3) by (rule Execute_no_record)
  have "upsertAndReply ?repo1 name ?new =
          ((acceptedMsg name 1, None),
           ?repo1\<lparr>calls := calls ?repo1 @ [UpsertReportCall ?new],
                  rows := upsertRow ?new (rows ?repo1)\<rparr>)"
    using assms(2) by (simp add: upsertAndReply_ok)
  with run have eq: "ReportActivityUsecase_Execute repo now userID name =
          ((acceptedMsg name 1, None),
           repo\<lparr>calls := calls repo @ [GetReportCall userID, UpsertReportCall ?new],
                rows := rows repo @ [?new]\<rparr>)"
    by (simp add: upsertRow_absent [OF absent])
  have "stored (repo\<lparr>calls := calls repo @ [GetReportCall userID, UpsertReportCall ?new],
                rows := rows repo @ [?new]\<rparr>) userID = Some ?new"
    using assms(3) by (simp add: stored_def find_append_absent)
  with eq show ?thesis
    by (simp add: acceptedMsg_def itoa_one)
qed

theorem first_report_creates_record_witness:
  "ReportActivityUsecase_Execute (mockRepo []) clock ''user1'' ''Alice'' =
     ((''Laporan diterima, Alice sudah berkeringat 1 hari. Lanjutkan '' @ fire, None),
      \<lparr>rows = [\<lparr>UserID = ''user1'', Name = ''Alice'', Streak = 1, ActivityCount = 1,
                LastReportDate = clock\<rparr>],
       getReportErr = None, upsertReportErr = None, getAllReportsErr = None,
       calls = [GetReportCall ''user1'',
                UpsertReportCall \<lparr>UserID = ''user1'', Name = ''Alice'', Streak = 1,
                  ActivityCount = 1, LastReportDate = clock\<rparr>]\<rparr>)"
proof -
  have a: "getReportErr (mockRepo []) = None" and b: "upsertReportErr (mockRepo []) = None"
    and c: "stored (mockRepo []) ''user1'' = None"
    by (simp_all add: mockRepo_def stored_def)
  from first_report_creates_record [OF a b c, of clock "''Alice''"]
  show ?thesis by (simp add: mockRepo_def)
qed


lemma Execute_other_day_ok:
  assumes "getReportErr repo = None" and "upsertReportErr repo = None"
    and "stored repo userID = Some r"
    and "\<not> Equal (startOfDay (LastReportDate r)) (startOfDay now)"
    and "r' = r\<lparr>Streak :=
                  (if Equal (startOfDay (LastReportDate r)) (AddDate (startOfDay now) (- 1))
                   then Streak r + 1 else 1),
               ActivityCount := ActivityCount r + 1, Name := name, LastReportDate := now\<rparr>"
  shows "ReportActivityUsecase_Execute repo now userID name =
           ((acceptedMsg name (ActivityCount r + 1), None),
            repo\<lparr>calls := calls repo @ [GetReportCall userID, UpsertReportCall r'],
                 rows := upsertRow r' (rows repo)\<rparr>)"
    and "stored (snd (ReportActivityUsecase_Execute repo now userID name)) userID = Some r'"
proof -
  let ?repo1 = "repo\<lparr>calls := calls repo @ [GetReportCall userID]\<rparr>"
  have "ReportActivityUsecase_Execute repo now userID name = upsertAndReply ?repo1 name r'"
    using assms(1,3,4) unfolding assms(5) by (rule Execute_other_day)
  moreover have "upsertAndReply ?repo1 name r' =
      ((acceptedMsg name (ActivityCount r'), None),
       ?repo1\<lparr>calls := calls ?repo1 @ [UpsertReportCall r'],
              rows := upsertRow r' (rows ?repo1)\<rparr>)"
    using assms(2) by (simp add: upsertAndReply_ok)
  ultimately show run: "ReportActivityUsecase_Execute repo now userID name =
           ((acceptedMsg name (ActivityCount r + 1), None),
            repo\<lparr>calls := calls repo @ [GetReportCall userID, UpsertReportCall r'],
                 rows := upsertRow r' (rows repo)\<rparr>)"
    by (simp add: assms(5))
  have "UserID r' = userID"
    using stored_UserID [OF assms(3)] by (simp add: assms(5))
  then show "stored (snd (ReportActivityUsecase_Execute repo now userID name)) userID = Some r'"
    using find_upsertRow_same [of r' "rows repo"] by (simp add: run stored_def)
qed

lemma Execute_other_day_ok_reset:
  assumes "getReportErr repo = None" and "upsertReportErr repo = None"
    and "stored repo userID = Some r"
    and "\<not> Equal (startOfDay (LastReportDate r)) (startOfDay now)"
    and "\<not> Equal (startOfDay (LastReportDate r)) (AddDate (startOfDay now) (- 1))"
  shows "ReportActivityUsecase_Execute repo now userID name =
           ((acceptedMsg name (ActivityCount r + 1), None),
            repo\<lparr>calls := calls repo @
                   [GetReportCall userID,
                    UpsertReportCall
                      (r\<lparr>Streak := 1, ActivityCount := ActivityCount r + 1, Name := name,
                         LastReportDate := now\<rparr>)],
                 rows := upsertRow
                   (r\<lparr>Streak := 1, ActivityCount := ActivityCount r + 1, Name := name,
                      LastReportDate := now\<rparr>) (rows repo)\<rparr>)"
    and "stored (snd (ReportActivityUsecase_Execute repo now userID name)) userID =
           Some (r\<lparr>Streak := 1, ActivityCount := ActivityCount r + 1, Name := name,
                   LastReportDate := now\<rparr>)"
proof -
  have r': "r\<lparr>Streak := 1, ActivityCount := ActivityCount r + 1, Name := name,
               LastReportDate := now\<rparr> =
            r\<lparr>Streak :=
                  (if Equal (startOfDay (LastReportDate r)) (AddDate (startOfDay now) (- 1))
                   then Streak r + 1 else 1),
               ActivityCount := ActivityCount r + 1, Name := name, LastReportDate := now\<rparr>"
    using assms(5) by simp
  note run = Execute_other_day_ok [OF assms(1,2,3,4) r']
  show "ReportActivityUsecase_Execute repo now userID name =
           ((acceptedMsg name (ActivityCount r + 1), None),
            repo\<lparr>calls := calls repo @
                   [GetReportCall userID,
                    UpsertReportCall
                      (r\<lparr>Streak := 1, ActivityCount := ActivityCount r + 1, Name := name,
                         LastReportDate := now\<rparr>)],
                 rows := upsertRow
                   (r\<lparr>Streak := 1, ActivityCount := ActivityCount r + 1, Name := name,
                      LastReportDate := now\<rparr>) (rows repo)\<rparr>)"
    by (rule run(1))
  show "stored (snd (ReportActivityUsecase_Execute repo now userID name)) userID =
           Some (r\<lparr>Streak := 1, ActivityCount := ActivityCount r + 1, Name := name,
                   LastReportDate := now\<rparr>)"
    by (rule run(2))
qed


text \<open>
  It also fails in a Location whose clocks go forward at midnight. There
  \<^verbatim>\<open>time.Date\<close> gives 01:00 for the midnight of the day of the change, and
  \<^verbatim>\<open>AddDate(0, 0, -1)\<close> of it is 01:00 of the day before, which is not the midnight of
  that day: a report of 2026-03-28 followed by one on 2026-03-29 resets the streak.
\<close>

lemma midnight_skipped_resets_streak:
  "localDay \<lparr>unixNano = 1774692000000000000, loc = forwardAtMidnight\<rparr> =
     localDay \<lparr>unixNano = 1774767600000000000, loc = forwardAtMidnight\<rparr> - 1
   \<and> \<not> midnightExists forwardAtMidnight
         (localDay \<lparr>unixNano = 1774767600000000000, loc = forwardAtMidnight\<rparr>)
   \<and> stored (snd (ReportActivityUsecase_Execute
       (mockRepo [\<lparr>UserID = ''user1'', Name = ''Bob'', Streak = 5, ActivityCount = 10,
            LastReportDate = \<lparr>unixNano = 1774692000000000000, loc = forwardAtMidnight\<rparr>\<rparr>])
       \<lparr>unixNano = 1774767600000000000, loc = forwardAtMidnight\<rparr> ''user1'' ''Bob''))
       ''user1'' =
     Some \<lparr>UserID = ''user1'', Name = ''Bob'', Streak = 1, ActivityCount = 11,
       LastReportDate = \<lparr>unixNano = 1774767600000000000, loc = forwardAtMidnight\<rparr>\<rparr>"
proof -
  let ?last = "\<lparr>unixNano = 1774692000000000000, loc = forwardAtMidnight\<rparr>"
  let ?now = "\<lparr>unixNano = 1774767600000000000, loc = forwardAtMidnight\<rparr>"
  let ?r = "\<lparr>UserID = ''user1'', Name = ''Bob'', Streak = 5, ActivityCount = 10,
              LastReportDate = ?last\<rparr>"
  have day: "localDay ?last = 20540" "localDay ?now = 20541"
    by (simp_all add: localDay_def absSec_def unixSec_def lookup_def forwardAtMidnight_def)
  have gap: "\<not> midnightExists forwardAtMidnight 20541"
    by (simp add: midnightExists_def localDay_def secOfDay_def absSec_def unixSec_def
        Date_def lookup_def forwardAtMidnight_def Let_def)
  have last: "startOfDay ?last = \<lparr>unixNano = 1774648800000000000, loc = forwardAtMidnight\<rparr>"
    unfolding startOfDay_def day
    by (simp add: Date_def lookup_def forwardAtMidnight_def Let_def)
  have today: "startOfDay ?now = \<lparr>unixNano = 1774735200000000000, loc = forwardAtMidnight\<rparr>"
    unfolding startOfDay_def day
    by (simp add: Date_def lookup_def forwardAtMidnight_def Let_def)
  have yesterday: "AddDate (startOfDay ?now) (- 1) =
      \<lparr>unixNano = 1774652400000000000, loc = forwardAtMidnight\<rparr>"
    unfolding today
    by (simp add: AddDate_def Date_def localDay_def secOfDay_def Nanosecond_def absSec_def
        unixSec_def lookup_def forwardAtMidnight_def Let_def)
  have a: "getReportErr (mockRepo [?r]) = None" and b: "upsertReportErr (mockRepo [?r]) = None"
    and c: "stored (mockRepo [?r]) ''user1'' = Some ?r"
    by (simp_all add: mockRepo_def stored_def)
  have d: "\<not> Equal (startOfDay (LastReportDate ?r)) (startOfDay ?now)"
    by (simp add: last today Equal_def)
  have e: "\<not> Equal (startOfDay (LastReportDate ?r)) (AddDate (startOfDay ?now) (- 1))"
    by (simp add: last yesterday Equal_def)
  from Execute_other_day_ok_reset(2) [OF a b c d e, of "''Bob''"] day gap
  show ?thesis
    by simp
qed














text \<open>
  C9. When the read fails, Execute returns that error with an empty message and the only
  repository call is the read, so no write is attempted. When the read succeeds and the
  write fails (a write is attempted unless the stored report is of today), Execute returns
  the error of the write, unchanged, with an empty message, after exactly one read and one
  write attempt, and the rows of the repository are as before.
\<close>

theorem persistence_failure_surfaces_error:
  "(getReportErr repo = Some e \<longrightarrow>
      ReportActivityUsecase_Execute repo now userID name =
        (('''', Some e), repo\<lparr>calls := calls repo @ [GetReportCall userID]\<rparr>))
   \<and> (getReportErr repo = None \<and> upsertReportErr repo = Some e
        \<and> (\<forall>r. stored repo userID = Some r
               \<longrightarrow> \<not> Equal (startOfDay (LastReportDate r)) (startOfDay now)) \<longrightarrow>
      fst (ReportActivityUsecase_Execute repo now userID name) = ('''', Some e)
      \<and> rows (snd (ReportActivityUsecase_Execute repo now userID name)) = rows repo
      \<and> (\<exists>report. calls (snd (ReportActivityUsecase_Execute repo now userID name)) =
             calls repo @ [GetReportCall userID, UpsertReportCall report]))"
proof (intro conjI impI)
  assume "getReportErr repo = Some e"
  then show "ReportActivityUsecase_Execute repo now userID name =
        (('''', Some e), repo\<lparr>calls := calls repo @ [GetReportCall userID]\<rparr>)"
    by (rule Execute_read_failure)
next
  assume h: "getReportErr repo = None \<and> upsertReportErr repo = Some e
        \<and> (\<forall>r. stored repo userID = Some r
               \<longrightarrow> \<not> Equal (startOfDay (LastReportDate r)) (startOfDay now))"
  let ?repo1 = "repo\<lparr>calls := calls repo @ [GetReportCall userID]\<rparr>"
  have fail: "upsertReportErr ?repo1 = Some e"
    using h by simp
  have "\<exists>report. ReportActivityUsecase_Execute repo now userID name =
           upsertAndReply ?repo1 name report"
  proof (cases "stored repo userID")
    case None
    with h show ?thesis
      by (auto simp: Execute_no_record)
  next
    case (Some r)
    with h have "\<not> Equal (startOfDay (LastReportDate r)) (startOfDay now)"
      by simp
    with h Some show ?thesis
      by (auto simp: Execute_other_day)
  qed
  then obtain report where
    "ReportActivityUsecase_Execute repo now userID name = upsertAndReply ?repo1 name report"
    by blast
  then have run: "ReportActivityUsecase_Execute repo now userID name =
      (('''', Some e), ?repo1\<lparr>calls := calls ?repo1 @ [UpsertReportCall report]\<rparr>)"
    by (simp add: upsertAndReply_failure [OF fail])
  show "fst (ReportActivityUsecase_Execute repo now userID name) = ('''', Some e)"
    by (simp add: run)
  show "rows (snd (ReportActivityUsecase_Execute repo now userID name)) = rows repo"
    by (simp add: run)
  show "\<exists>report. calls (snd (ReportActivityUsecase_Execute repo now userID name)) =
             calls repo @ [GetReportCall userID, UpsertReportCall report]"
    by (simp add: run)
qed

theorem persistence_failure_surfaces_error_witness:
  "ReportActivityUsecase_Execute ((mockRepo [])\<lparr>getReportErr := Some (Err ''database is locked'')\<rparr>)
       clock ''user1'' ''Alice'' =
     (('''', Some (Err ''database is locked'')),
      \<lparr>rows = [], getReportErr = Some (Err ''database is locked''), upsertReportErr = None,
       getAllReportsErr = None, calls = [GetReportCall ''user1'']\<rparr>)
   \<and> fst (ReportActivityUsecase_Execute
       ((mockRepo [\<lparr>UserID = ''user1'', Name = ''Bob'', Streak = 5, ActivityCount = 10,
                    LastReportDate = daysAgo 1\<rparr>])\<lparr>upsertReportErr := Some (Err ''disk full'')\<rparr>)
       clock ''user1'' ''Bob'') = ('''', Some (Err ''disk full''))
   \<and> rows (snd (ReportActivityUsecase_Execute
       ((mockRepo [\<lparr>UserID = ''user1'', Name = ''Bob'', Streak = 5, ActivityCount = 10,
                    LastReportDate = daysAgo 1\<rparr>])\<lparr>upsertReportErr := Some (Err ''disk full'')\<rparr>)
       clock ''user1'' ''Bob'')) =
       [\<lparr>UserID = ''user1'', Name = ''Bob'', Streak = 5, ActivityCount = 10,
         LastReportDate = daysAgo 1\<rparr>]"
proof -
  let ?down = "(mockRepo [])\<lparr>getReportErr := Some (Err ''database is locked'')\<rparr>"
  let ?bob = "\<lparr>UserID = ''user1'', Name = ''Bob'', Streak = 5, ActivityCount = 10,
               LastReportDate = daysAgo 1\<rparr>"
  let ?full = "(mockRepo [?bob])\<lparr>upsertReportErr := Some (Err ''disk full'')\<rparr>"
  have a: "getReportErr ?down = Some (Err ''database is locked'')"
    by simp
  have b: "getReportErr ?full = None \<and> upsertReportErr ?full = Some (Err ''disk full'')
        \<and> (\<forall>r. stored ?full ''user1'' = Some r
               \<longrightarrow> \<not> Equal (startOfDay (LastReportDate r)) (startOfDay clock))"
    by (simp add: mockRepo_def stored_def Equal_startOfDay_fixtures loc_daysAgo loc_clock
        localDay_daysAgo localDay_clock)
  from persistence_failure_surfaces_error [of ?down "Err ''database is locked''" clock
      "''user1''" "''Alice''"] a
  have one: "ReportActivityUsecase_Execute ?down clock ''user1'' ''Alice'' =
     (('''', Some (Err ''database is locked'')),
      ?down\<lparr>calls := calls ?down @ [GetReportCall ''user1'']\<rparr>)"
    by blast
  from persistence_failure_surfaces_error [of ?full "Err ''disk full''" clock
      "''user1''" "''Bob''"] b
  have two: "fst (ReportActivityUsecase_Execute ?full clock ''user1'' ''Bob'')
        = ('''', Some (Err ''disk full''))"
    "rows (snd (ReportActivityUsecase_Execute ?full clock ''user1'' ''Bob'')) = rows ?full"
    by blast+
  from one two show ?thesis
    by (simp add: mockRepo_def)
qed


lemma sint_succ_64:
  fixes w :: "64 word"
  assumes "sint w < 9223372036854775807"
  shows "sint (w + 1) = sint w + 1"
proof -
  have lo: "- (2 ^ 63) \<le> sint w"
    using sint_ge [of w] by simp
  have "sint (w + 1) = signed_take_bit 63 (sint w + 1)"
    by (simp add: sint_word_ariths)
  also have "\<dots> = sint w + 1"
    using lo assms by (intro signed_take_bit_int_eq_self) simp_all
  finally show ?thesis .
qed

lemma Execute_rows_cases:
  "rows (snd (ReportActivityUsecase_Execute repo now userID name)) = rows repo
   \<or> (getReportErr repo = None \<and> upsertReportErr repo = None \<and>
      (case stored repo userID of
         None \<Rightarrow>
           rows (snd (ReportActivityUsecase_Execute repo now userID name)) =
             upsertRow \<lparr>UserID = userID, Name = name, Streak = 1, ActivityCount = 1,
                        LastReportDate = now\<rparr> (rows repo)
       | Some r \<Rightarrow>
           rows (snd (ReportActivityUsecase_Execute repo now userID name)) =
             upsertRow (r\<lparr>Streak :=
                  (if Equal (startOfDay (LastReportDate r)) (AddDate (startOfDay now) (- 1))
                   then Streak r + 1 else 1),
               ActivityCount := ActivityCount r + 1, Name := name, LastReportDate := now\<rparr>)
               (rows repo)))"
proof (cases "getReportErr repo")
  case (Some e)
  then show ?thesis by (simp add: Execute_read_failure)
next
  case None
  note get = this
  show ?thesis
  proof (cases "upsertReportErr repo")
    case (Some e)
    then have fail: "upsertReportErr (repo\<lparr>calls := calls repo @ [GetReportCall userID]\<rparr>) = Some e"
      by simp
    show ?thesis
    proof (cases "stored repo userID")
      case None
      then show ?thesis
        by (simp add: Execute_no_record [OF get] upsertAndReply_failure [OF fail])
    next
      case (Some r)
      then show ?thesis
        by (cases "Equal (startOfDay (LastReportDate r)) (startOfDay now)")
           (simp_all add: Execute_same_day [OF get] Execute_other_day [OF get]
              upsertAndReply_failure [OF fail])
    qed
  next
    case None
    then have ok: "upsertReportErr (repo\<lparr>calls := calls repo @ [GetReportCall userID]\<rparr>) = None"
      by simp
    show ?thesis
    proof (cases "stored repo userID")
      case None
      then show ?thesis
        using get \<open>upsertReportErr repo = None\<close>
        by (simp add: Execute_no_record [OF get] upsertAndReply_ok [OF ok])
    next
      case (Some r)
      then show ?thesis
        using get \<open>upsertReportErr repo = None\<close>
        by (cases "Equal (startOfDay (LastReportDate r)) (startOfDay now)")
           (simp_all add: Execute_same_day [OF get] Execute_other_day [OF get]
              upsertAndReply_ok [OF ok])
    qed
  qed
qed

text \<open>
  C4 as stated fails where Go's \<^verbatim>\<open>int\<close> ends. A stored report with streak 5 and
  activityCount 9223372036854775807, last made yesterday, satisfies the three inequalities;
  the accepted report stores streak 6 and activityCount -9223372036854775808.
\<close>

theorem invariant_broken_at_largest_int:
  "ledgerInvariant \<lparr>UserID = ''user1'', Name = ''Eve'', Streak = 5,
       ActivityCount = 9223372036854775807, LastReportDate = daysAgo 1\<rparr>
   \<and> stored (mockRepo [\<lparr>UserID = ''user1'', Name = ''Eve'', Streak = 5,
       ActivityCount = 9223372036854775807, LastReportDate = daysAgo 1\<rparr>]) ''user1'' =
       Some \<lparr>UserID = ''user1'', Name = ''Eve'', Streak = 5,
         ActivityCount = 9223372036854775807, LastReportDate = daysAgo 1\<rparr>
   \<and> stored (snd (ReportActivityUsecase_Execute
        (mockRepo [\<lparr>UserID = ''user1'', Name = ''Eve'', Streak = 5,
           ActivityCount = 9223372036854775807, LastReportDate = daysAgo 1\<rparr>])
        clock ''user1'' ''Eve'')) ''user1'' =
       Some \<lparr>UserID = ''user1'', Name = ''Eve'', Streak = 6,
         ActivityCount = 9223372036854775808, LastReportDate = clock\<rparr>
   \<and> sint (9223372036854775808 :: 64 word) = - 9223372036854775808
   \<and> \<not> ledgerInvariant \<lparr>UserID = ''user1'', Name = ''Eve'', Streak = 6,
         ActivityCount = 9223372036854775808, LastReportDate = clock\<rparr>"
proof -
  let ?r = "\<lparr>UserID = ''user1'', Name = ''Eve'', Streak = 5,
       ActivityCount = 9223372036854775807, LastReportDate = daysAgo 1\<rparr>"
  have a: "getReportErr (mockRepo [?r]) = None" and b: "upsertReportErr (mockRepo [?r]) = None"
    and c: "stored (mockRepo [?r]) ''user1'' = Some ?r"
    by (simp_all add: mockRepo_def stored_def)
  have other: "\<not> Equal (startOfDay (LastReportDate ?r)) (startOfDay clock)"
    by (simp add: Equal_startOfDay_fixtures loc_daysAgo loc_clock localDay_daysAgo
        localDay_clock)
  have yest: "Equal (startOfDay (LastReportDate ?r)) (AddDate (startOfDay clock) (- 1))"
    by (simp add: Equal_startOfDay_fixtures loc_daysAgo loc_clock localDay_daysAgo
        localDay_clock)
  have r': "\<lparr>UserID = ''user1'', Name = ''Eve'', Streak = 6,
         ActivityCount = 9223372036854775808, LastReportDate = clock\<rparr> =
      ?r\<lparr>Streak :=
          (if Equal (startOfDay (LastReportDate ?r)) (AddDate (startOfDay clock) (- 1))
           then Streak ?r + 1 else 1),
        ActivityCount := ActivityCount ?r + 1, Name := ''Eve'', LastReportDate := clock\<rparr>"
    using yest by simp
  from Execute_other_day_ok(2) [OF a b c other r'] c
  show ?thesis
    by (simp add: ledgerInvariant_def)
qed


text \<open>
  C4, amended. A stored report with streak at least 1, activityCount at least 1,
  activityCount at least streak and activityCount below 9223372036854775807 (the largest
  Go int): after Execute for that member -- rejected, incremented, reset, or failed at the
  read or the write -- the member still has a stored report and it satisfies the three
  inequalities. A member with no stored report has, after Execute, either none or one
  that satisfies them.
\<close>

theorem invariant_preserved_below_largest_int:
  "(stored repo userID = Some r \<and> ledgerInvariant r
      \<and> sint (ActivityCount r) < 9223372036854775807 \<longrightarrow>
      (\<exists>r'. stored (snd (ReportActivityUsecase_Execute repo now userID name)) userID = Some r'
            \<and> ledgerInvariant r'))
   \<and> (stored repo userID = None \<longrightarrow>
      (\<forall>r'. stored (snd (ReportActivityUsecase_Execute repo now userID name)) userID = Some r'
            \<longrightarrow> ledgerInvariant r'))"
proof (intro conjI impI allI)
  assume h: "stored repo userID = Some r \<and> ledgerInvariant r
      \<and> sint (ActivityCount r) < 9223372036854775807"
  let ?r' = "r\<lparr>Streak :=
                  (if Equal (startOfDay (LastReportDate r)) (AddDate (startOfDay now) (- 1))
                   then Streak r + 1 else 1),
               ActivityCount := ActivityCount r + 1, Name := name, LastReportDate := now\<rparr>"
  from h have inv: "1 \<le> sint (Streak r)" "1 \<le> sint (ActivityCount r)"
      "sint (Streak r) \<le> sint (ActivityCount r)"
    by (simp_all add: ledgerInvariant_def)
  from h have bound: "sint (ActivityCount r) < 9223372036854775807"
    by simp
  have count: "sint (ActivityCount r + 1) = sint (ActivityCount r) + 1"
    using bound by (rule sint_succ_64)
  have streak: "sint (Streak r + 1) = sint (Streak r) + 1"
    using inv(3) bound by (intro sint_succ_64) simp
  have inv': "ledgerInvariant ?r'"
    using inv by (simp add: ledgerInvariant_def count streak)
  have uid: "UserID ?r' = userID"
    using stored_UserID [of repo userID r] h by simp
  from Execute_rows_cases [of repo now userID name]
  show "\<exists>r'. stored (snd (ReportActivityUsecase_Execute repo now userID name)) userID = Some r'
            \<and> ledgerInvariant r'"
  proof
    assume "rows (snd (ReportActivityUsecase_Execute repo now userID name)) = rows repo"
    then have "stored (snd (ReportActivityUsecase_Execute repo now userID name)) userID = Some r"
      using h by (simp add: stored_def)
    with h show ?thesis by blast
  next
    assume "getReportErr repo = None \<and> upsertReportErr repo = None \<and>
      (case stored repo userID of
         None \<Rightarrow>
           rows (snd (ReportActivityUsecase_Execute repo now userID name)) =
             upsertRow \<lparr>UserID = userID, Name = name, Streak = 1, ActivityCount = 1,
                        LastReportDate = now\<rparr> (rows repo)
       | Some r \<Rightarrow>
           rows (snd (ReportActivityUsecase_Execute repo now userID name)) =
             upsertRow (r\<lparr>Streak :=
                  (if Equal (startOfDay (LastReportDate r)) (AddDate (startOfDay now) (- 1))
                   then Streak r + 1 else 1),
               ActivityCount := ActivityCount r + 1, Name := name, LastReportDate := now\<rparr>)
               (rows repo))"
    with h have "rows (snd (ReportActivityUsecase_Execute repo now userID name)) =
        upsertRow ?r' (rows repo)"
      by simp
    then have "stored (snd (ReportActivityUsecase_Execute repo now userID name)) userID = Some ?r'"
      using find_upsertRow_same [of ?r' "rows repo"] uid by (simp add: stored_def)
    with inv' show ?thesis by blast
  qed
next
  fix r'
  assume none: "stored repo userID = None"
    and after: "stored (snd (ReportActivityUsecase_Execute repo now userID name)) userID = Some r'"
  let ?new = "\<lparr>UserID = userID, Name = name, Streak = 1, ActivityCount = 1,
                LastReportDate = now\<rparr>"
  from Execute_rows_cases [of repo now userID name]
  show "ledgerInvariant r'"
  proof
    assume "rows (snd (ReportActivityUsecase_Execute repo now userID name)) = rows repo"
    with none after show ?thesis
      by (simp add: stored_def)
  next
    assume "getReportErr repo = None \<and> upsertReportErr repo = None \<and>
      (case stored repo userID of
         None \<Rightarrow>
           rows (snd (ReportActivityUsecase_Execute repo now userID name)) =
             upsertRow \<lparr>UserID = userID, Name = name, Streak = 1, ActivityCount = 1,
                        LastReportDate = now\<rparr> (rows repo)
       | Some r \<Rightarrow>
           rows (snd (ReportActivityUsecase_Execute repo now userID name)) =
             upsertRow (r\<lparr>Streak :=
                  (if Equal (startOfDay (LastReportDate r)) (AddDate (startOfDay now) (- 1))
                   then Streak r + 1 else 1),
               ActivityCount := ActivityCount r + 1, Name := name, LastReportDate := now\<rparr>)
               (rows repo))"
    with none have "rows (snd (ReportActivityUsecase_Execute repo now userID name)) =
        upsertRow ?new (rows repo)"
      by simp
    then have "stored (snd (ReportActivityUsecase_Execute repo now userID name)) userID = Some ?new"
      using find_upsertRow_same [of ?new "rows repo"] by (simp add: stored_def)
    with after have "r' = ?new" by simp
    then show ?thesis
      by (simp add: ledgerInvariant_def)
  qed
qed

theorem invariant_preserved_below_largest_int_witness:
  "ledgerInvariant \<lparr>UserID = ''user1'', Name = ''Bob'', Streak = 5, ActivityCount = 10,
       LastReportDate = daysAgo 1\<rparr>
   \<and> (\<exists>r'. stored (snd (ReportActivityUsecase_Execute
          (mockRepo [\<lparr>UserID = ''user1'', Name = ''Bob'', Streak = 5, ActivityCount = 10,
             LastReportDate = daysAgo 1\<rparr>]) clock ''user1'' ''Bob'')) ''user1'' = Some r'
        \<and> ledgerInvariant r')"
proof -
  let ?bob = "\<lparr>UserID = ''user1'', Name = ''Bob'', Streak = 5, ActivityCount = 10,
               LastReportDate = daysAgo 1\<rparr>"
  have a: "stored (mockRepo [?bob]) ''user1'' = Some ?bob \<and> ledgerInvariant ?bob
      \<and> sint (ActivityCount ?bob) < 9223372036854775807"
    by (simp add: stored_def mockRepo_def ledgerInvariant_def)
  with invariant_preserved_below_largest_int [of "mockRepo [?bob]" "''user1''" ?bob clock "''Bob''"]
  show ?thesis
    by blast
qed


subsection \<open>The leaderboard\<close>

lemma partitionLoop_filter:
  "partitionLoop today yesterday rs (keep, lose) =
     (keep @ filter (keepsStreak today yesterday) rs,
      lose @ filter (\<lambda>r. \<not> keepsStreak today yesterday r) rs)"
  by (induction rs arbitrary: keep lose) simp_all


lemma writeActive_lines:
  "writeActive rs (sb, rank) =
     (sb @ concat (map2 activeLine [rank..rank + int (length rs) - 1] rs),
      rank + int (length rs))"
proof (induction rs arbitrary: sb rank)
  case Nil
  show ?case by simp
next
  case (Cons r rs)
  have "[rank..rank + int (length (r # rs)) - 1] = rank # [rank + 1..rank + 1 + int (length rs) - 1]"
    by (simp add: upto_rec1 add.commute add.left_commute)
  with Cons show ?case
    by (simp add: add.commute add.left_commute)
qed

lemma writeLost_lines:
  "writeLost rs (sb, rank) =
     (sb @ concat (map2 lostLine [rank..rank + int (length rs) - 1] rs),
      rank + int (length rs))"
proof (induction rs arbitrary: sb rank)
  case Nil
  show ?case by simp
next
  case (Cons r rs)
  have "[rank..rank + int (length (r # rs)) - 1] = rank # [rank + 1..rank + 1 + int (length rs) - 1]"
    by (simp add: upto_rec1 add.commute add.left_commute)
  with Cons show ?case
    by (simp add: add.commute add.left_commute)
qed

lemma renderLeaderboard_text:
  "renderLeaderboard now maxDay keep lose =
     titleLine maxDay (Format now) @ recapDayLine maxDay
       @ keepCountLine (int (length keep)) @ loseCountLine (int (length lose))
       @ standingsLine
       @ concat (map2 activeLine [1..int (length keep)] keep)
       @ concat (map2 lostLine [int (length keep) + 1..int (length keep) + int (length lose)] lose)
       @ closingLines"
  by (simp add: renderLeaderboard_def writeActive_lines writeLost_lines Let_def
      add.commute add.left_commute)

lemma Leaderboard_read_failure:
  "getAllReportsErr repo = Some e \<Longrightarrow>
     GetLeaderboardUsecase_Execute srt repo now =
       (('''', Some e), repo\<lparr>calls := calls repo @ [GetAllReportsCall]\<rparr>)"
  by (simp add: GetLeaderboardUsecase_Execute_def GetAllReports_def)

lemma Leaderboard_ok:
  "getAllReportsErr repo = None \<Longrightarrow>
     GetLeaderboardUsecase_Execute srt repo now =
       ((renderLeaderboard now (maxDayLoop (rows repo) 0)
           (srt byStreakDesc
              (filter (keepsStreak (startOfDay now) (AddDate (startOfDay now) (- 1))) (rows repo)))
           (srt byStreakDesc
              (filter (\<lambda>r. \<not> keepsStreak (startOfDay now) (AddDate (startOfDay now) (- 1)) r)
                 (rows repo))),
         None),
        repo\<lparr>calls := calls repo @ [GetAllReportsCall]\<rparr>)"
  by (simp add: GetLeaderboardUsecase_Execute_def GetAllReports_def partitionLoop_filter Let_def)

lemma Max_insert_max:
  fixes a b :: int
  assumes "finite A"
  shows "Max (insert (max a b) A) = Max (insert a (insert b A))"
proof (cases "A = {}")
  case True
  then show ?thesis by (simp add: max.commute)
next
  case False
  with assms show ?thesis
    by (simp add: max.assoc)
qed

lemma maxDayLoop_Max:
  "sint (maxDayLoop rs m) = Max (insert (sint m) ((\<lambda>r. sint (ActivityCount r)) ` set rs))"
proof (induction rs arbitrary: m)
  case Nil
  show ?case by simp
next
  case (Cons r rs)
  let ?m' = "if sint m < sint (ActivityCount r) then ActivityCount r else m"
  have "sint ?m' = max (sint m) (sint (ActivityCount r))"
    by simp
  then have "sint (maxDayLoop (r # rs) m) =
      Max (insert (max (sint m) (sint (ActivityCount r)))
             ((\<lambda>r. sint (ActivityCount r)) ` set rs))"
    using Cons [of ?m'] by simp
  also have "\<dots> = Max (insert (sint m) (insert (sint (ActivityCount r))
             ((\<lambda>r. sint (ActivityCount r)) ` set rs)))"
    by (rule Max_insert_max) simp
  finally show ?case by simp
qed


lemma mset_swapDown: "mset (swapDown lt x ys) = add_mset x (mset ys)"
  by (induction ys) simp_all

lemma set_swapDown: "set (swapDown lt x ys) = insert x (set ys)"
  using mset_swapDown [of lt x ys] by (metis set_mset_add_mset_insert set_mset_mset)

lemma mset_insertionSortLoop:
  "mset (insertionSortLoop lt xs front) = mset xs + mset front"
  by (induction xs arbitrary: front) (simp_all add: mset_swapDown)

lemma sorted_swapDown:
  fixes f :: "'a \<Rightarrow> int"
  assumes "sorted_wrt (\<lambda>a b. f a \<le> f b) ys"
  shows "sorted_wrt (\<lambda>a b. f a \<le> f b) (swapDown (\<lambda>a b. f b < f a) x ys)"
  using assms
proof (induction ys)
  case Nil
  show ?case by simp
next
  case (Cons y ys)
  show ?case
  proof (cases "f y < f x")
    case True
    with Cons show ?thesis
      by (auto simp: set_swapDown)
  next
    case False
    with Cons.prems show ?thesis
      by auto
  qed
qed

lemma sorted_insertionSortLoop:
  fixes f :: "'a \<Rightarrow> int"
  assumes "sorted_wrt (\<lambda>a b. f a \<le> f b) front"
  shows "sorted_wrt (\<lambda>a b. f b \<le> f a) (insertionSortLoop (\<lambda>a b. f b < f a) xs front)"
  using assms
proof (induction xs arbitrary: front)
  case Nil
  then show ?case by (simp add: sorted_wrt_rev)
next
  case (Cons x xs)
  from Cons.prems have "sorted_wrt (\<lambda>a b. f a \<le> f b) (swapDown (\<lambda>a b. f b < f a) x front)"
    by (rule sorted_swapDown)
  then show ?case
    by (simp add: Cons.IH)
qed

lemma insertionSort_sortsSlice: "sortsSlice insertionSort byStreakDesc"
proof -
  have lt: "byStreakDesc = (\<lambda>a b. sint (Streak b) < sint (Streak a))"
    by (simp add: fun_eq_iff byStreakDesc_def)
  have ordered: "sorted_wrt (\<lambda>a b. sint (Streak b) \<le> sint (Streak a))
          (insertionSortLoop (\<lambda>a b. sint (Streak b) < sint (Streak a)) xs [])" for xs
    by (rule sorted_insertionSortLoop) simp
  show ?thesis
    unfolding sortsSlice_def insertionSort_def lt
    by (simp add: mset_insertionSortLoop not_less ordered)
qed

lemma sortsSlice_Nil: "sortsSlice srt lt \<Longrightarrow> srt lt [] = []"
  using mset_zero_iff by (fastforce simp: sortsSlice_def)


lemma threeMembers_days:
  "localDay clock = 20490" "localDay (daysAgo 1) = 20489" "localDay (daysAgo 7) = 20483"
  by (simp_all add: localDay_clock localDay_daysAgo)

lemma keepsStreak_clock:
  assumes "loc (LastReportDate r) = FixedZone 25200"
  shows "keepsStreak (startOfDay clock) (AddDate (startOfDay clock) (- 1)) r =
           (localDay (LastReportDate r) = 20490 \<or> localDay (LastReportDate r) = 20489)"
  using Equal_startOfDay_fixtures [OF assms loc_clock]
  by (simp add: keepsStreak_def localDay_clock)

lemma filter_threeMembers:
  "filter (keepsStreak (startOfDay clock) (AddDate (startOfDay clock) (- 1))) threeMembers =
     [\<lparr>UserID = ''user3'', Name = ''LowTotal_ActiveStreak'', Streak = 10, ActivityCount = 10,
       LastReportDate = clock\<rparr>,
      \<lparr>UserID = ''user2'', Name = ''MediumTotal_ActiveStreak'', Streak = 25,
       ActivityCount = 25, LastReportDate = daysAgo 1\<rparr>]"
  "filter (\<lambda>r. \<not> keepsStreak (startOfDay clock) (AddDate (startOfDay clock) (- 1)) r)
     threeMembers =
     [\<lparr>UserID = ''user1'', Name = ''HighTotal_LostStreak'', Streak = 0, ActivityCount = 30,
       LastReportDate = daysAgo 7\<rparr>]"
  by (simp_all add: threeMembers_def keepsStreak_clock loc_clock loc_daysAgo threeMembers_days)

lemma civil_clock: "civilFromDays 20490 = (2026, 2, 6)"
  by code_simp

lemma Format_clock: "Format clock = ''06-02-2026''"
  by (simp add: Format_def threeMembers_days civil_clock appendInt_def digits.simps Let_def)





text \<open>
  C6. With a read that succeeds and a \<open>srt\<close> that sorts: the text is the header lines,
  then one line "{rank}. {name} - {streak} days streak" with the fire sign for each
  active report, then one line "{rank}. {name} - Day {activityCount}" with the broken
  heart for each lost report, then the closing lines. The active and the lost reports are
  those chosen by the partition loop, each list in order of streak descending, and the
  ranks run 1, 2, ... through the active lines and on through the lost lines.
\<close>

theorem leaderboard_ranks_active_then_lost:
  assumes "getAllReportsErr repo = None" and "sortsSlice srt byStreakDesc"
  shows "\<exists>keep lose.
      fst (GetLeaderboardUsecase_Execute srt repo now) =
        (titleLine (maxDayLoop (rows repo) 0) (Format now)
           @ recapDayLine (maxDayLoop (rows repo) 0)
           @ keepCountLine (int (length keep)) @ loseCountLine (int (length lose))
           @ standingsLine
           @ concat (map2 (\<lambda>rank r. itoa rank @ ''. '' @ Name r @ '' - ''
                 @ itoa (sint (Streak r)) @ '' days streak '' @ fire @ newline)
               [1..int (length keep)] keep)
           @ concat (map2 (\<lambda>rank r. itoa rank @ ''. '' @ Name r @ '' - Day ''
                 @ itoa (sint (ActivityCount r)) @ '' '' @ brokenHeart @ newline)
               [int (length keep) + 1..int (length keep) + int (length lose)] lose)
           @ closingLines,
         None)
      \<and> mset keep =
          mset (filter (keepsStreak (startOfDay now) (AddDate (startOfDay now) (- 1))) (rows repo))
      \<and> mset lose =
          mset (filter (\<lambda>r. \<not> keepsStreak (startOfDay now) (AddDate (startOfDay now) (- 1)) r)
                  (rows repo))
      \<and> sorted_wrt (\<lambda>a b. sint (Streak b) \<le> sint (Streak a)) keep
      \<and> sorted_wrt (\<lambda>a b. sint (Streak b) \<le> sint (Streak a)) lose"
proof -
  let ?kept = "filter (keepsStreak (startOfDay now) (AddDate (startOfDay now) (- 1))) (rows repo)"
  let ?lost = "filter (\<lambda>r. \<not> keepsStreak (startOfDay now) (AddDate (startOfDay now) (- 1)) r)
                  (rows repo)"
  let ?keep = "srt byStreakDesc ?kept"
  let ?lose = "srt byStreakDesc ?lost"
  have order: "(\<lambda>a b. \<not> byStreakDesc b a) = (\<lambda>a b. sint (Streak b) \<le> sint (Streak a))"
    by (simp add: fun_eq_iff byStreakDesc_def not_less)
  from assms(2) have same_elems: "mset ?keep = mset ?kept" "mset ?lose = mset ?lost"
    unfolding sortsSlice_def by blast+
  from assms(2) have "sorted_wrt (\<lambda>a b. \<not> byStreakDesc b a) ?keep"
    and "sorted_wrt (\<lambda>a b. \<not> byStreakDesc b a) ?lose"
    unfolding sortsSlice_def by blast+
  then have in_order: "sorted_wrt (\<lambda>a b. sint (Streak b) \<le> sint (Streak a)) ?keep"
    "sorted_wrt (\<lambda>a b. sint (Streak b) \<le> sint (Streak a)) ?lose"
    by (simp_all only: order)
  have lines: "activeLine = (\<lambda>rank r. itoa rank @ ''. '' @ Name r @ '' - ''
                 @ itoa (sint (Streak r)) @ '' days streak '' @ fire @ newline)"
    "lostLine = (\<lambda>rank r. itoa rank @ ''. '' @ Name r @ '' - Day ''
                 @ itoa (sint (ActivityCount r)) @ '' '' @ brokenHeart @ newline)"
    by (simp_all add: fun_eq_iff activeLine_def lostLine_def)
  have "fst (GetLeaderboardUsecase_Execute srt repo now) =
      (renderLeaderboard now (maxDayLoop (rows repo) 0) ?keep ?lose, None)"
    by (simp add: Leaderboard_ok [OF assms(1)])
  then have out: "fst (GetLeaderboardUsecase_Execute srt repo now) =
        (titleLine (maxDayLoop (rows repo) 0) (Format now)
           @ recapDayLine (maxDayLoop (rows repo) 0)
           @ keepCountLine (int (length ?keep)) @ loseCountLine (int (length ?lose))
           @ standingsLine
           @ concat (map2 (\<lambda>rank r. itoa rank @ ''. '' @ Name r @ '' - ''
                 @ itoa (sint (Streak r)) @ '' days streak '' @ fire @ newline)
               [1..int (length ?keep)] ?keep)
           @ concat (map2 (\<lambda>rank r. itoa rank @ ''. '' @ Name r @ '' - Day ''
                 @ itoa (sint (ActivityCount r)) @ '' '' @ brokenHeart @ newline)
               [int (length ?keep) + 1..int (length ?keep) + int (length ?lose)] ?lose)
           @ closingLines,
         None)"
    by (simp only: renderLeaderboard_text lines)
  show ?thesis
    apply (rule exI [of _ ?keep])
    apply (rule exI [of _ ?lose])
    apply (intro conjI)
        apply (rule out)
       apply (rule same_elems(1))
      apply (rule same_elems(2))
     apply (rule in_order(1))
    apply (rule in_order(2))
    done
qed


lemma two_sorted_by_streak:
  assumes "mset keep = mset [a, b]" and "sint (Streak a) < sint (Streak b)"
    and "sorted_wrt (\<lambda>a b. sint (Streak b) \<le> sint (Streak a)) keep"
  shows "keep = [b, a]"
proof -
  from assms(1) have "length keep = 2"
    using size_mset [of keep] by simp
  then obtain x y where keep: "keep = [x, y]"
    by (auto simp: length_Suc_conv numeral_2_eq_2)
  with assms(1) have "x = a \<and> y = b \<or> x = b \<and> y = a"
    by (auto simp: add_eq_conv_ex)
  with assms(2,3) keep show ?thesis
    by auto
qed

theorem leaderboard_ranks_active_then_lost_witness:
  "fst (GetLeaderboardUsecase_Execute insertionSort (mockRepo threeMembers) clock) =
     (titleLine 30 ''06-02-2026'' @ recapDayLine 30 @ keepCountLine 2 @ loseCountLine 1
        @ standingsLine
        @ ''1. MediumTotal_ActiveStreak - 25 days streak '' @ fire @ newline
        @ ''2. LowTotal_ActiveStreak - 10 days streak '' @ fire @ newline
        @ ''3. HighTotal_LostStreak - Day 30 '' @ brokenHeart @ newline
        @ closingLines,
      None)"
proof -
  let ?high = "\<lparr>UserID = ''user1'', Name = ''HighTotal_LostStreak'', Streak = 0,
                 ActivityCount = 30, LastReportDate = daysAgo 7\<rparr>"
  let ?low = "\<lparr>UserID = ''user3'', Name = ''LowTotal_ActiveStreak'', Streak = 10,
                ActivityCount = 10, LastReportDate = clock\<rparr>"
  let ?medium = "\<lparr>UserID = ''user2'', Name = ''MediumTotal_ActiveStreak'', Streak = 25,
                   ActivityCount = 25, LastReportDate = daysAgo 1\<rparr>"
  have a: "getAllReportsErr (mockRepo threeMembers) = None"
    and rows: "rows (mockRepo threeMembers) = threeMembers"
    by (simp_all add: mockRepo_def)
  have kept: "filter (keepsStreak (startOfDay clock) (AddDate (startOfDay clock) (- 1)))
      threeMembers = [?low, ?medium]"
    and lost: "filter (\<lambda>r. \<not> keepsStreak (startOfDay clock) (AddDate (startOfDay clock) (- 1)) r)
      threeMembers = [?high]"
    by (simp_all add: filter_threeMembers)
  have m: "maxDayLoop threeMembers 0 = 30"
    by (simp add: threeMembers_def)
  from leaderboard_ranks_active_then_lost [OF a insertionSort_sortsSlice, of clock]
  obtain keep lose where
    out: "fst (GetLeaderboardUsecase_Execute insertionSort (mockRepo threeMembers) clock) =
        (titleLine 30 (Format clock) @ recapDayLine 30
           @ keepCountLine (int (length keep)) @ loseCountLine (int (length lose))
           @ standingsLine
           @ concat (map2 (\<lambda>rank r. itoa rank @ ''. '' @ Name r @ '' - ''
                 @ itoa (sint (Streak r)) @ '' days streak '' @ fire @ newline)
               [1..int (length keep)] keep)
           @ concat (map2 (\<lambda>rank r. itoa rank @ ''. '' @ Name r @ '' - Day ''
                 @ itoa (sint (ActivityCount r)) @ '' '' @ brokenHeart @ newline)
               [int (length keep) + 1..int (length keep) + int (length lose)] lose)
           @ closingLines,
         None)"
    and keep: "mset keep = mset [?low, ?medium]"
      "sorted_wrt (\<lambda>a b. sint (Streak b) \<le> sint (Streak a)) keep"
    and lose: "mset lose = mset [?high]"
    unfolding rows kept lost m by blast
  from keep have "keep = [?medium, ?low]"
    by (intro two_sorted_by_streak) simp_all
  moreover from lose have "lose = [?high]"
    by simp
  ultimately show ?thesis
    using out by (simp add: Format_clock upto_rec1 itoa_def digits.simps)
qed


text \<open>The whole text of the leaderboard for the three members of the test.\<close>

lemma insertionSort_threeMembers:
  "insertionSort byStreakDesc
     (filter (keepsStreak (startOfDay clock) (AddDate (startOfDay clock) (- 1))) threeMembers) =
     [\<lparr>UserID = ''user2'', Name = ''MediumTotal_ActiveStreak'', Streak = 25,
       ActivityCount = 25, LastReportDate = daysAgo 1\<rparr>,
      \<lparr>UserID = ''user3'', Name = ''LowTotal_ActiveStreak'', Streak = 10, ActivityCount = 10,
       LastReportDate = clock\<rparr>]"
  "insertionSort byStreakDesc
     (filter (\<lambda>r. \<not> keepsStreak (startOfDay clock) (AddDate (startOfDay clock) (- 1)) r)
        threeMembers) =
     [\<lparr>UserID = ''user1'', Name = ''HighTotal_LostStreak'', Streak = 0, ActivityCount = 30,
       LastReportDate = daysAgo 7\<rparr>]"
  by (simp_all add: filter_threeMembers insertionSort_def byStreakDesc_def)

lemma threeMembers_text:
  "fst (GetLeaderboardUsecase_Execute insertionSort (mockRepo threeMembers) clock) =
     (''30 Days of Sweat Challenge '' @ enDash @ '' Day 30 (06-02-2026)'' @ newline @ newline
        @ ''Recap day 30:'' @ newline
        @ ''2 peoples keep the streak '' @ fire @ newline
        @ ''1 lose the streak '' @ brokenHeart @ newline
        @ newline @ ''Update klasemen sementara:'' @ newline
        @ ''1. MediumTotal_ActiveStreak - 25 days streak '' @ fire @ newline
        @ ''2. LowTotal_ActiveStreak - 10 days streak '' @ fire @ newline
        @ ''3. HighTotal_LostStreak - Day 30 '' @ brokenHeart @ newline
        @ newline
        @ ''Yang udah keringetan langsung update/posting aja nanti dimasukkin klasemen ''
        @ flexedBiceps @ newline @ newline @ ''Semangat'' @ fire,
      None)"
proof -
  have a: "getAllReportsErr (mockRepo threeMembers) = None"
    and rows: "rows (mockRepo threeMembers) = threeMembers"
    by (simp_all add: mockRepo_def)
  have m: "maxDayLoop threeMembers 0 = 30"
    by (simp add: threeMembers_def)
  show ?thesis
    by (simp add: Leaderboard_ok [OF a] rows m insertionSort_threeMembers
        renderLeaderboard_text Format_clock titleLine_def recapDayLine_def keepCountLine_def
        loseCountLine_def standingsLine_def activeLine_def lostLine_def closingLines_def
        upto_rec1 itoa_def digits.simps)
qed


lemma itoa_zero: "itoa 0 = ''0''"
  by (simp add: itoa_def digits.simps)

text \<open>
  C7. With a read that succeeds, the text starts with the title line and the line
  "Recap day N:", both carrying the day counter N computed by the loop over all reports.
  N is the largest of 0 and the activityCounts, so it is the largest activityCount when
  there are reports and none is negative, and 0 when there are none. With no reports
  (and a \<open>srt\<close> that sorts) Execute returns, without error, the whole text with day 0,
  counts 0 and 0 and no rank lines.
\<close>

theorem leaderboard_header_day_is_largest_activity_count:
  assumes "getAllReportsErr repo = None"
  shows "(\<exists>rest. fst (GetLeaderboardUsecase_Execute srt repo now) =
            (''30 Days of Sweat Challenge '' @ enDash @ '' Day ''
               @ itoa (sint (maxDayLoop (rows repo) 0)) @ '' ('' @ Format now @ '')''
               @ newline @ newline
               @ ''Recap day '' @ itoa (sint (maxDayLoop (rows repo) 0)) @ '':'' @ newline
               @ rest,
             None))
         \<and> sint (maxDayLoop (rows repo) 0) =
             Max (insert 0 ((\<lambda>r. sint (ActivityCount r)) ` set (rows repo)))
         \<and> (rows repo \<noteq> [] \<and> (\<forall>r\<in>set (rows repo). 0 \<le> sint (ActivityCount r)) \<longrightarrow>
              sint (maxDayLoop (rows repo) 0) =
                Max ((\<lambda>r. sint (ActivityCount r)) ` set (rows repo)))
         \<and> (rows repo = [] \<and> sortsSlice srt byStreakDesc \<longrightarrow>
              GetLeaderboardUsecase_Execute srt repo now =
                ((''30 Days of Sweat Challenge '' @ enDash @ '' Day 0 ('' @ Format now @ '')''
                    @ newline @ newline
                    @ ''Recap day 0:'' @ newline
                    @ ''0 peoples keep the streak '' @ fire @ newline
                    @ ''0 lose the streak '' @ brokenHeart @ newline
                    @ newline @ ''Update klasemen sementara:'' @ newline
                    @ newline
                    @ ''Yang udah keringetan langsung update/posting aja nanti dimasukkin klasemen ''
                    @ flexedBiceps @ newline @ newline @ ''Semangat'' @ fire,
                  None),
                 repo\<lparr>calls := calls repo @ [GetAllReportsCall]\<rparr>))"
proof (intro conjI impI)
  let ?counts = "(\<lambda>r. sint (ActivityCount r)) ` set (rows repo)"
  show "\<exists>rest. fst (GetLeaderboardUsecase_Execute srt repo now) =
            (''30 Days of Sweat Challenge '' @ enDash @ '' Day ''
               @ itoa (sint (maxDayLoop (rows repo) 0)) @ '' ('' @ Format now @ '')''
               @ newline @ newline
               @ ''Recap day '' @ itoa (sint (maxDayLoop (rows repo) 0)) @ '':'' @ newline
               @ rest,
             None)"
    by (simp add: Leaderboard_ok [OF assms] renderLeaderboard_text titleLine_def
        recapDayLine_def)
  show largest: "sint (maxDayLoop (rows repo) 0) = Max (insert 0 ?counts)"
    using maxDayLoop_Max [of "rows repo" 0] by simp
  {
    assume h: "rows repo \<noteq> [] \<and> (\<forall>r\<in>set (rows repo). 0 \<le> sint (ActivityCount r))"
    then have ne: "?counts \<noteq> {}" and fin: "finite ?counts"
      by simp_all
    have "Max ?counts \<in> ?counts"
      by (rule Max_in [OF fin ne])
    then obtain r where "r \<in> set (rows repo)" and "Max ?counts = sint (ActivityCount r)"
      by (auto simp only: image_iff)
    with h have "0 \<le> Max ?counts"
      by simp
    with ne fin have "Max (insert 0 ?counts) = Max ?counts"
      by simp
    with largest show "sint (maxDayLoop (rows repo) 0) = Max ?counts"
      by simp
  }
  {
    assume h: "rows repo = [] \<and> sortsSlice srt byStreakDesc"
    then have "srt byStreakDesc [] = []"
      by (simp add: sortsSlice_Nil)
    with h show "GetLeaderboardUsecase_Execute srt repo now =
                ((''30 Days of Sweat Challenge '' @ enDash @ '' Day 0 ('' @ Format now @ '')''
                    @ newline @ newline
                    @ ''Recap day 0:'' @ newline
                    @ ''0 peoples keep the streak '' @ fire @ newline
                    @ ''0 lose the streak '' @ brokenHeart @ newline
                    @ newline @ ''Update klasemen sementara:'' @ newline
                    @ newline
                    @ ''Yang udah keringetan langsung update/posting aja nanti dimasukkin klasemen ''
                    @ flexedBiceps @ newline @ newline @ ''Semangat'' @ fire,
                  None),
                 repo\<lparr>calls := calls repo @ [GetAllReportsCall]\<rparr>)"
      by (simp add: Leaderboard_ok [OF assms] renderLeaderboard_text titleLine_def
          recapDayLine_def keepCountLine_def loseCountLine_def standingsLine_def
          closingLines_def itoa_zero)
  }
qed


theorem leaderboard_header_day_is_largest_activity_count_witness:
  "GetLeaderboardUsecase_Execute insertionSort (mockRepo []) clock =
     ((''30 Days of Sweat Challenge '' @ enDash @ '' Day 0 (06-02-2026)'' @ newline @ newline
         @ ''Recap day 0:'' @ newline
         @ ''0 peoples keep the streak '' @ fire @ newline
         @ ''0 lose the streak '' @ brokenHeart @ newline
         @ newline @ ''Update klasemen sementara:'' @ newline
         @ newline
         @ ''Yang udah keringetan langsung update/posting aja nanti dimasukkin klasemen ''
         @ flexedBiceps @ newline @ newline @ ''Semangat'' @ fire,
       None),
      \<lparr>rows = [], getReportErr = None, upsertReportErr = None, getAllReportsErr = None,
       calls = [GetAllReportsCall]\<rparr>)
   \<and> sint (maxDayLoop threeMembers 0) = 30
   \<and> (\<exists>rest. fst (GetLeaderboardUsecase_Execute insertionSort (mockRepo threeMembers) clock) =
         (''30 Days of Sweat Challenge '' @ enDash @ '' Day 30 (06-02-2026)''
            @ newline @ newline @ ''Recap day 30:'' @ newline @ rest,
          None))"
proof (intro conjI)
  have a: "getAllReportsErr (mockRepo []) = None"
    and b: "rows (mockRepo []) = [] \<and> sortsSlice insertionSort byStreakDesc"
    by (simp_all add: mockRepo_def insertionSort_sortsSlice)
  from leaderboard_header_day_is_largest_activity_count [OF a, of insertionSort clock] b
  have "GetLeaderboardUsecase_Execute insertionSort (mockRepo []) clock =
     ((''30 Days of Sweat Challenge '' @ enDash @ '' Day 0 ('' @ Format clock @ '')''
         @ newline @ newline
         @ ''Recap day 0:'' @ newline
         @ ''0 peoples keep the streak '' @ fire @ newline
         @ ''0 lose the streak '' @ brokenHeart @ newline
         @ newline @ ''Update klasemen sementara:'' @ newline
         @ newline
         @ ''Yang udah keringetan langsung update/posting aja nanti dimasukkin klasemen ''
         @ flexedBiceps @ newline @ newline @ ''Semangat'' @ fire,
       None),
      (mockRepo [])\<lparr>calls := calls (mockRepo []) @ [GetAllReportsCall]\<rparr>)"
    by blast
  then show "GetLeaderboardUsecase_Execute insertionSort (mockRepo []) clock =
     ((''30 Days of Sweat Challenge '' @ enDash @ '' Day 0 (06-02-2026)'' @ newline @ newline
         @ ''Recap day 0:'' @ newline
         @ ''0 peoples keep the streak '' @ fire @ newline
         @ ''0 lose the streak '' @ brokenHeart @ newline
         @ newline @ ''Update klasemen sementara:'' @ newline
         @ newline
         @ ''Yang udah keringetan langsung update/posting aja nanti dimasukkin klasemen ''
         @ flexedBiceps @ newline @ newline @ ''Semangat'' @ fire,
       None),
      \<lparr>rows = [], getReportErr = None, upsertReportErr = None, getAllReportsErr = None,
       calls = [GetAllReportsCall]\<rparr>)"
    by (simp add: Format_clock mockRepo_def)
next
  have a: "getAllReportsErr (mockRepo threeMembers) = None"
    and rows: "rows (mockRepo threeMembers) = threeMembers"
    by (simp_all add: mockRepo_def)
  have c: "rows (mockRepo threeMembers) \<noteq> []
      \<and> (\<forall>r\<in>set (rows (mockRepo threeMembers)). 0 \<le> sint (ActivityCount r))"
    by (simp add: mockRepo_def threeMembers_def)
  note header = leaderboard_header_day_is_largest_activity_count [OF a, of insertionSort clock]
  from header c have "sint (maxDayLoop threeMembers 0) =
      Max ((\<lambda>r. sint (ActivityCount r)) ` set threeMembers)"
    unfolding rows by blast
  then show day: "sint (maxDayLoop threeMembers 0) = 30"
    by (simp add: threeMembers_def)
  from header obtain rest where
    "fst (GetLeaderboardUsecase_Execute insertionSort (mockRepo threeMembers) clock) =
            (''30 Days of Sweat Challenge '' @ enDash @ '' Day ''
               @ itoa (sint (maxDayLoop threeMembers 0)) @ '' ('' @ Format clock @ '')''
               @ newline @ newline
               @ ''Recap day '' @ itoa (sint (maxDayLoop threeMembers 0)) @ '':'' @ newline
               @ rest,
             None)"
    unfolding rows by blast
  then have "fst (GetLeaderboardUsecase_Execute insertionSort (mockRepo threeMembers) clock) =
         (''30 Days of Sweat Challenge '' @ enDash @ '' Day 30 (06-02-2026)''
            @ newline @ newline @ ''Recap day 30:'' @ newline @ rest,
          None)"
    by (simp add: day Format_clock itoa_def digits.simps)
  then show "\<exists>rest. fst (GetLeaderboardUsecase_Execute insertionSort (mockRepo threeMembers) clock) =
         (''30 Days of Sweat Challenge '' @ enDash @ '' Day 30 (06-02-2026)''
            @ newline @ newline @ ''Recap day 30:'' @ newline @ rest,
          None)"
    by (rule exI)
qed


subsection \<open>The router\<close>

lemma leaderboard_is_not_lapor:
  "prefix ''#leaderboard'' t \<Longrightarrow> \<not> prefix ''#lapor'' t"
  by (auto simp: prefix_def)

text \<open>
  C8. The text is trimmed and folded to lower case, then matched by prefix: a text that
  starts with \<^verbatim>\<open>#lapor\<close> gives what the report use case gives, a text that starts with
  \<^verbatim>\<open>#leaderboard\<close> gives what the leaderboard use case gives, whatever follows the
  token; every other text gives the empty string, no error and the repository untouched
  (no call recorded). The empty text, \<^verbatim>\<open>lapor\<close> and \<^verbatim>\<open>leaderboard\<close> are such texts.
\<close>

theorem router_dispatches_by_prefix:
  "(prefix ''#lapor'' (ToLower (TrimSpace rawText)) \<longrightarrow>
      HandleMessageUsecase_Execute srt repo now userID name rawText =
        ReportActivityUsecase_Execute repo now userID name)
   \<and> (prefix ''#leaderboard'' (ToLower (TrimSpace rawText)) \<longrightarrow>
      HandleMessageUsecase_Execute srt repo now userID name rawText =
        GetLeaderboardUsecase_Execute srt repo now)
   \<and> (\<not> prefix ''#lapor'' (ToLower (TrimSpace rawText))
        \<and> \<not> prefix ''#leaderboard'' (ToLower (TrimSpace rawText)) \<longrightarrow>
      HandleMessageUsecase_Execute srt repo now userID name rawText = (('''', None), repo))
   \<and> HandleMessageUsecase_Execute srt repo now userID name '''' = (('''', None), repo)
   \<and> HandleMessageUsecase_Execute srt repo now userID name ''lapor'' = (('''', None), repo)
   \<and> HandleMessageUsecase_Execute srt repo now userID name ''leaderboard'' =
       (('''', None), repo)"
proof (intro conjI impI)
  assume "prefix ''#lapor'' (ToLower (TrimSpace rawText))"
  then show "HandleMessageUsecase_Execute srt repo now userID name rawText =
        ReportActivityUsecase_Execute repo now userID name"
    by (simp add: HandleMessageUsecase_Execute_def)
next
  assume board: "prefix ''#leaderboard'' (ToLower (TrimSpace rawText))"
  then have "\<not> prefix ''#lapor'' (ToLower (TrimSpace rawText))"
    by (rule leaderboard_is_not_lapor)
  with board show "HandleMessageUsecase_Execute srt repo now userID name rawText =
        GetLeaderboardUsecase_Execute srt repo now"
    by (simp add: HandleMessageUsecase_Execute_def)
next
  assume "\<not> prefix ''#lapor'' (ToLower (TrimSpace rawText))
        \<and> \<not> prefix ''#leaderboard'' (ToLower (TrimSpace rawText))"
  then show "HandleMessageUsecase_Execute srt repo now userID name rawText =
      (('''', None), repo)"
    by (simp add: HandleMessageUsecase_Execute_def)
next
  show "HandleMessageUsecase_Execute srt repo now userID name '''' = (('''', None), repo)"
    by (simp add: HandleMessageUsecase_Execute_def ToLower_def TrimSpace_def)
next
  show "HandleMessageUsecase_Execute srt repo now userID name ''lapor'' = (('''', None), repo)"
    by (simp add: HandleMessageUsecase_Execute_def ToLower_def TrimSpace_def isSpace_def
        toLowerChar_def)
next
  show "HandleMessageUsecase_Execute srt repo now userID name ''leaderboard'' =
       (('''', None), repo)"
    by (simp add: HandleMessageUsecase_Execute_def ToLower_def TrimSpace_def isSpace_def
        toLowerChar_def)
qed

lemma normalised_examples:
  "ToLower (TrimSpace ([CHR 0x09] @ '' #LaPor hari ini olahraga lari '' @ newline)) =
     ''#lapor hari ini olahraga lari''"
  "ToLower (TrimSpace (newline @ ''#LeaderBoard'' @ newline)) = ''#leaderboard''"
  "ToLower (TrimSpace ''Halo semua'') = ''halo semua''"
  by (simp_all add: ToLower_def TrimSpace_def isSpace_def toLowerChar_def newline_def)

theorem router_dispatches_by_prefix_witness:
  "HandleMessageUsecase_Execute insertionSort (mockRepo []) clock ''user1'' ''Alice''
       ([CHR 0x09] @ '' #LaPor hari ini olahraga lari '' @ newline) =
     ReportActivityUsecase_Execute (mockRepo []) clock ''user1'' ''Alice''
   \<and> HandleMessageUsecase_Execute insertionSort (mockRepo []) clock ''user1'' ''Alice''
       (newline @ ''#LeaderBoard'' @ newline) =
     GetLeaderboardUsecase_Execute insertionSort (mockRepo []) clock
   \<and> HandleMessageUsecase_Execute insertionSort (mockRepo []) clock ''user1'' ''Alice''
       ''Halo semua'' = (('''', None), mockRepo [])"
proof -
  note router = router_dispatches_by_prefix [of _ insertionSort "mockRepo []" clock "''user1''"
      "''Alice''"]
  have "prefix ''#lapor''
      (ToLower (TrimSpace ([CHR 0x09] @ '' #LaPor hari ini olahraga lari '' @ newline)))"
    by (subst normalised_examples) simp
  with router have one:
    "HandleMessageUsecase_Execute insertionSort (mockRepo []) clock ''user1'' ''Alice''
       ([CHR 0x09] @ '' #LaPor hari ini olahraga lari '' @ newline) =
     ReportActivityUsecase_Execute (mockRepo []) clock ''user1'' ''Alice''"
    by blast
  have "prefix ''#leaderboard'' (ToLower (TrimSpace (newline @ ''#LeaderBoard'' @ newline)))"
    by (subst normalised_examples) simp
  with router have two:
    "HandleMessageUsecase_Execute insertionSort (mockRepo []) clock ''user1'' ''Alice''
       (newline @ ''#LeaderBoard'' @ newline) =
     GetLeaderboardUsecase_Execute insertionSort (mockRepo []) clock"
    by blast
  have "\<not> prefix ''#lapor'' (ToLower (TrimSpace ''Halo semua''))
      \<and> \<not> prefix ''#leaderboard'' (ToLower (TrimSpace ''Halo semua''))"
    by (simp only: normalised_examples) simp
  with router have three:
    "HandleMessageUsecase_Execute insertionSort (mockRepo []) clock ''user1'' ''Alice''
       ''Halo semua'' = (('''', None), mockRepo [])"
    by blast
  from one two three show ?thesis
    by (intro conjI)
qed


end
